theory Spec2Isabelle
  imports Complex_Main "HOL-Library.Multiset"
begin

section \<open>Conversation adapter (src/services/gemini.js)\<close>

text \<open>
  A history element \<open>m\<close> is read through \<open>m.role\<close> and \<open>m.content\<close> only.
  \<open>m.content\<close> may be absent; \<open>m.content || ''\<close> then gives the empty string.
  The provider's turn \<open>{ role, parts: [{ text }] }\<close> is a role and one text.
\<close>

record message =
  role :: string
  content :: "string option"

record api_turn =
  turn_role :: string
  turn_text :: string

text \<open>
  \<^verbatim>\<open>
  const baseHistory = history.map((m) => ({
    role: m.role === 'user' ? 'user' : 'model',
    parts: [{ text: m.content || '' }],
  }));
  \<close>
\<close>

definition toTurn :: "message \<Rightarrow> api_turn" where
  "toTurn m =
     \<lparr>turn_role = (if role m = ''user'' then ''user'' else ''model''),
      turn_text = (case content m of None \<Rightarrow> '''' | Some c \<Rightarrow> c)\<rparr>"

definition baseHistory :: "message list \<Rightarrow> api_turn list" where
  "baseHistory history = map toTurn history"

definition instructionTurn :: "string \<Rightarrow> api_turn" where
  "instructionTurn systemInstruction =
     \<lparr>turn_role = ''user'',
      turn_text = ''Follow these instructions in every response:'' @ [CHR 0x0A, CHR 0x0A]
                  @ systemInstruction\<rparr>"

definition ackTurn :: api_turn where
  "ackTurn = \<lparr>turn_role = ''model'', turn_text = ''Got it! I'll follow those instructions.''\<rparr>"

text \<open>
  The same expression builds \<open>chatHistory\<close> in \<open>streamChat\<close>, \<open>chatWithCsvTools\<close> and
  \<open>chatWithJsonTools\<close>. A JavaScript string is truthy exactly when it is not empty.
\<close>

definition chatHistory :: "string \<Rightarrow> message list \<Rightarrow> api_turn list" where
  "chatHistory systemInstruction history =
     (if systemInstruction \<noteq> []
      then [instructionTurn systemInstruction, ackTurn] @ baseHistory history
      else baseHistory history)"


section \<open>Tool-calling orchestrator (src/services/gemini.js)\<close>

text \<open>
  The model provider and the executor are supplied from outside, so they are parameters
  of the embedding. Both may have effects (the executor of \<open>chatWithJsonTools\<close> is
  awaited and may call the network; the chat session keeps the conversation), so both
  take and return the state \<open>'w\<close> of everything outside the orchestrator. A thrown
  exception (a rejected promise under \<open>await\<close>) is the left summand of a result.

  \<^item> \<open>'a\<close> is the type of the arguments object of a function call and \<open>'r\<close> the type of
    a tool result.
  \<^item> A part of a response either has a truthy \<open>functionCall\<close> (with its \<open>name\<close> and
    \<open>args\<close>) or it has none. \<open>resp_text\<close> is what \<open>response.text()\<close> returns.
\<close>

datatype exn = Exn string

datatype 'a part = TextPart string | FunctionCallPart string 'a | OtherPart

record 'a response =
  resp_parts :: "'a part list"
  resp_text :: string

datatype 'r request = Message string | FunctionResponse string 'r

text \<open>
  The calls that leave the orchestrator, in the order they are made; a call of the
  executor is listed with its outcome.
\<close>

datatype ('a, 'r) event = ExecuteFn string 'a "exn + 'r" | SendMessage "'r request"

record ('a, 'r) toolCall =
  tc_name :: string
  tc_args :: 'a
  tc_result :: 'r

record ('w, 'a, 'r) loop_state =
  response :: "'a response"
  world :: 'w
  charts :: "'r list"
  videoCards :: "'r list"
  toolCalls :: "('a, 'r) toolCall list"
  trace :: "('a, 'r) event list"

record ('a, 'r) chat_result =
  res_text :: string
  res_charts :: "'r list"
  res_videoCards :: "'r list"
  res_toolCalls :: "('a, 'r) toolCall list"

fun hasFunctionCall :: "'a part \<Rightarrow> bool" where
  "hasFunctionCall (FunctionCallPart name args) = True"
| "hasFunctionCall _ = False"

text \<open>
  \<^verbatim>\<open>
  for (let round = 0; round < 5; round++) {
    const parts = response.candidates?.[0]?.content?.parts || [];
    const funcCall = parts.find((p) => p.functionCall);
    if (!funcCall) break;
    const { name, args } = funcCall.functionCall;
    const toolResult = await executeFn(name, args);
    toolCalls.push({ name, args, result: toolResult });
    if (toolResult?._chartType) charts.push(toolResult);
    if (toolResult?._cardType === 'video') videoCards.push(toolResult);
    response = (await chat.sendMessage([
        { functionResponse: { name, response: { result: toolResult } } },
      ])).response;
  }
  \<close>
  There is no \<open>try\<close> around \<open>executeFn\<close> or \<open>sendMessage\<close>: an exception of either leaves
  the loop and the function. The state at the throw is kept beside the exception for
  the trace of calls only; the caller receives the exception alone.

  \<open>chartType r\<close> stands for \<open>r?._chartType\<close> being truthy and \<open>cardVideo r\<close> for
  \<open>r?._cardType === 'video'\<close>.
\<close>

function jsonToolLoop ::
  "('w \<Rightarrow> 'r request \<Rightarrow> (exn + 'a response) \<times> 'w) \<Rightarrow>
   ('w \<Rightarrow> string \<Rightarrow> 'a \<Rightarrow> (exn + 'r) \<times> 'w) \<Rightarrow>
   ('r \<Rightarrow> bool) \<Rightarrow> ('r \<Rightarrow> bool) \<Rightarrow> nat \<Rightarrow> ('w, 'a, 'r) loop_state \<Rightarrow>
   (exn \<times> ('w, 'a, 'r) loop_state) + ('w, 'a, 'r) loop_state" where
  "jsonToolLoop sendMessage executeFn chartType cardVideo rnd st =
     (if rnd < 5 then
        (case find hasFunctionCall (resp_parts (response st)) of
           Some (FunctionCallPart name args) \<Rightarrow>
             (case executeFn (world st) name args of
                (Inl e, w) \<Rightarrow>
                  Inl (e, st\<lparr>world := w, trace := trace st @ [ExecuteFn name args (Inl e)]\<rparr>)
              | (Inr toolResult, w) \<Rightarrow>
                  (let st1 = st\<lparr>world := w,
                                trace := trace st @ [ExecuteFn name args (Inr toolResult)]\<rparr>;
                       st2 = st1\<lparr>toolCalls := toolCalls st1 @
                                  [\<lparr>tc_name = name, tc_args = args, tc_result = toolResult\<rparr>]\<rparr>;
                       st3 = (if chartType toolResult
                              then st2\<lparr>charts := charts st2 @ [toolResult]\<rparr> else st2);
                       st4 = (if cardVideo toolResult
                              then st3\<lparr>videoCards := videoCards st3 @ [toolResult]\<rparr> else st3);
                       st5 = st4\<lparr>trace := trace st4 @
                                  [SendMessage (FunctionResponse name toolResult)]\<rparr>
                   in case sendMessage (world st5) (FunctionResponse name toolResult) of
                        (Inl e, w') \<Rightarrow> Inl (e, st5\<lparr>world := w'\<rparr>)
                      | (Inr resp, w') \<Rightarrow>
                          jsonToolLoop sendMessage executeFn chartType cardVideo (rnd + 1)
                            (st5\<lparr>response := resp, world := w'\<rparr>)))
         | _ \<Rightarrow> Inr st)
      else Inr st)"
  by pat_completeness auto
termination
  by (relation "measure (\<lambda>(sendMessage, executeFn, chartType, cardVideo, rnd, st). 5 - rnd)")
     auto

text \<open>
  \<open>chatWithCsvTools\<close> runs the same loop without \<open>await\<close> on \<open>executeFn\<close> and without
  the video cards.
\<close>

function csvToolLoop ::
  "('w \<Rightarrow> 'r request \<Rightarrow> (exn + 'a response) \<times> 'w) \<Rightarrow>
   ('w \<Rightarrow> string \<Rightarrow> 'a \<Rightarrow> (exn + 'r) \<times> 'w) \<Rightarrow>
   ('r \<Rightarrow> bool) \<Rightarrow> nat \<Rightarrow> ('w, 'a, 'r) loop_state \<Rightarrow>
   (exn \<times> ('w, 'a, 'r) loop_state) + ('w, 'a, 'r) loop_state" where
  "csvToolLoop sendMessage executeFn chartType rnd st =
     (if rnd < 5 then
        (case find hasFunctionCall (resp_parts (response st)) of
           Some (FunctionCallPart name args) \<Rightarrow>
             (case executeFn (world st) name args of
                (Inl e, w) \<Rightarrow>
                  Inl (e, st\<lparr>world := w, trace := trace st @ [ExecuteFn name args (Inl e)]\<rparr>)
              | (Inr toolResult, w) \<Rightarrow>
                  (let st1 = st\<lparr>world := w,
                                trace := trace st @ [ExecuteFn name args (Inr toolResult)]\<rparr>;
                       st2 = st1\<lparr>toolCalls := toolCalls st1 @
                                  [\<lparr>tc_name = name, tc_args = args, tc_result = toolResult\<rparr>]\<rparr>;
                       st3 = (if chartType toolResult
                              then st2\<lparr>charts := charts st2 @ [toolResult]\<rparr> else st2);
                       st5 = st3\<lparr>trace := trace st3 @
                                  [SendMessage (FunctionResponse name toolResult)]\<rparr>
                   in case sendMessage (world st5) (FunctionResponse name toolResult) of
                        (Inl e, w') \<Rightarrow> Inl (e, st5\<lparr>world := w'\<rparr>)
                      | (Inr resp, w') \<Rightarrow>
                          csvToolLoop sendMessage executeFn chartType (rnd + 1)
                            (st5\<lparr>response := resp, world := w'\<rparr>)))
         | _ \<Rightarrow> Inr st)
      else Inr st)"
  by pat_completeness auto
termination
  by (relation "measure (\<lambda>(sendMessage, executeFn, chartType, rnd, st). 5 - rnd)") auto

definition finish :: "('w, 'a, 'r) loop_state \<Rightarrow> ('a, 'r) chat_result" where
  "finish st =
     \<lparr>res_text = resp_text (response st), res_charts = charts st,
      res_videoCards = videoCards st, res_toolCalls = toolCalls st\<rparr>"

text \<open>
  \<open>startChat\<close> opens the session with a history; the first request carries the user's
  message. \<open>chatWithJsonTools\<close> returns \<open>{ text, charts, videoCards, toolCalls }\<close>.
  The second component of the result is the trace of calls made.
\<close>

definition chatWithJsonTools ::
  "('w \<Rightarrow> api_turn list \<Rightarrow> 'w) \<Rightarrow> ('w \<Rightarrow> 'r request \<Rightarrow> (exn + 'a response) \<times> 'w) \<Rightarrow>
   ('r \<Rightarrow> bool) \<Rightarrow> ('r \<Rightarrow> bool) \<Rightarrow> string \<Rightarrow> 'w \<Rightarrow>
   message list \<Rightarrow> string \<Rightarrow> ('w \<Rightarrow> string \<Rightarrow> 'a \<Rightarrow> (exn + 'r) \<times> 'w) \<Rightarrow>
   (exn + ('a, 'r) chat_result) \<times> ('a, 'r) event list" where
  "chatWithJsonTools startChat sendMessage chartType cardVideo systemInstruction w0
       history newMessage executeFn =
     (case sendMessage (startChat w0 (chatHistory systemInstruction history))
             (Message newMessage) of
        (Inl e, w) \<Rightarrow> (Inl e, [SendMessage (Message newMessage)])
      | (Inr resp, w) \<Rightarrow>
          (case jsonToolLoop sendMessage executeFn chartType cardVideo 0
                  \<lparr>response = resp, world = w, charts = [], videoCards = [], toolCalls = [],
                   trace = [SendMessage (Message newMessage)]\<rparr> of
             Inl (e, st) \<Rightarrow> (Inl e, trace st)
           | Inr st \<Rightarrow> (Inr (finish st), trace st)))"

text \<open>
  \<^verbatim>\<open>
  const msgWithContext = csvHeaders?.length
    ? `[CSV columns: ${csvHeaders.join(', ')}]\n\n${newMessage}`
    : newMessage;
  \<close>
\<close>

fun join :: "string \<Rightarrow> string list \<Rightarrow> string" where
  "join sep [] = []"
| "join sep [x] = x"
| "join sep (x # y # ys) = x @ sep @ join sep (y # ys)"

definition msgWithContext :: "string list \<Rightarrow> string \<Rightarrow> string" where
  "msgWithContext csvHeaders newMessage =
     (if csvHeaders \<noteq> []
      then ''[CSV columns: '' @ join '', '' csvHeaders @ '']'' @ [CHR 0x0A, CHR 0x0A] @ newMessage
      else newMessage)"

definition chatWithCsvTools ::
  "('w \<Rightarrow> api_turn list \<Rightarrow> 'w) \<Rightarrow> ('w \<Rightarrow> 'r request \<Rightarrow> (exn + 'a response) \<times> 'w) \<Rightarrow>
   ('r \<Rightarrow> bool) \<Rightarrow> string \<Rightarrow> 'w \<Rightarrow>
   message list \<Rightarrow> string \<Rightarrow> string list \<Rightarrow> ('w \<Rightarrow> string \<Rightarrow> 'a \<Rightarrow> (exn + 'r) \<times> 'w) \<Rightarrow>
   (exn + ('a, 'r) chat_result) \<times> ('a, 'r) event list" where
  "chatWithCsvTools startChat sendMessage chartType systemInstruction w0
       history newMessage csvHeaders executeFn =
     (case sendMessage (startChat w0 (chatHistory systemInstruction history))
             (Message (msgWithContext csvHeaders newMessage)) of
        (Inl e, w) \<Rightarrow> (Inl e, [SendMessage (Message (msgWithContext csvHeaders newMessage))])
      | (Inr resp, w) \<Rightarrow>
          (case csvToolLoop sendMessage executeFn chartType 0
                  \<lparr>response = resp, world = w, charts = [], videoCards = [], toolCalls = [],
                   trace = [SendMessage (Message (msgWithContext csvHeaders newMessage))]\<rparr> of
             Inl (e, st) \<Rightarrow> (Inl e, trace st)
           | Inr st \<Rightarrow> (Inr (finish st), trace st)))"


subsection \<open>Counting the calls of a run\<close>

fun isExecuteFn :: "('a, 'r) event \<Rightarrow> bool" where
  "isExecuteFn (ExecuteFn name args outcome) = True"
| "isExecuteFn (SendMessage q) = False"

definition invocations :: "('a, 'r) event list \<Rightarrow> nat" where
  "invocations tr = length (filter isExecuteFn tr)"

definition final_state ::
  "(exn \<times> ('w, 'a, 'r) loop_state) + ('w, 'a, 'r) loop_state \<Rightarrow> ('w, 'a, 'r) loop_state" where
  "final_state x = (case x of Inl (e, st) \<Rightarrow> st | Inr st \<Rightarrow> st)"

text \<open>The state after a tool result has been recorded and its response has been sent.\<close>

definition jsonRecorded ::
  "('r \<Rightarrow> bool) \<Rightarrow> ('r \<Rightarrow> bool) \<Rightarrow> string \<Rightarrow> 'a \<Rightarrow> 'r \<Rightarrow> 'w \<Rightarrow>
   ('w, 'a, 'r) loop_state \<Rightarrow> ('w, 'a, 'r) loop_state" where
  "jsonRecorded chartType cardVideo name args toolResult w st =
     st\<lparr>world := w,
        toolCalls := toolCalls st @ [\<lparr>tc_name = name, tc_args = args, tc_result = toolResult\<rparr>],
        charts := (if chartType toolResult then charts st @ [toolResult] else charts st),
        videoCards := (if cardVideo toolResult then videoCards st @ [toolResult] else videoCards st),
        trace := trace st @ [ExecuteFn name args (Inr toolResult),
                             SendMessage (FunctionResponse name toolResult)]\<rparr>"

text \<open>No call of the executor in a trace has thrown.\<close>

fun threw :: "('a, 'r) event \<Rightarrow> bool" where
  "threw (ExecuteFn name args (Inl e)) = True"
| "threw _ = False"

definition noThrowSoFar :: "('a, 'r) event list \<Rightarrow> bool" where
  "noThrowSoFar tr = list_all (\<lambda>ev. \<not> threw ev) tr"

text \<open>
  Every throwing call of the executor in a trace threw \<open>e\<close> and is the last call of the
  trace.
\<close>

definition throwIsLast :: "exn \<Rightarrow> ('a, 'r) event list \<Rightarrow> bool" where
  "throwIsLast e tr \<longleftrightarrow>
     (\<forall>name args x. ExecuteFn name args (Inl x) \<in> set tr \<longrightarrow>
        x = e \<and> last tr = ExecuteFn name args (Inl x))"

text \<open>A model that asks for a call in every response, and executors for it.\<close>

definition greedyModel :: "nat \<Rightarrow> unit request \<Rightarrow> (exn + unit response) \<times> nat" where
  "greedyModel w q =
     (Inr \<lparr>resp_parts = [TextPart ''next'', FunctionCallPart ''play_video'' ()],
           resp_text = ''next''\<rparr>, w)"

definition countingExecutor :: "nat \<Rightarrow> string \<Rightarrow> unit \<Rightarrow> (exn + unit) \<times> nat" where
  "countingExecutor w name args = (Inr (), Suc w)"

definition failingExecutor :: "nat \<Rightarrow> string \<Rightarrow> unit \<Rightarrow> (exn + unit) \<times> nat" where
  "failingExecutor w name args = (Inl (Exn ''TypeError''), Suc w)"

definition quietState :: "(nat, unit, unit) loop_state" where
  "quietState = \<lparr>response = \<lparr>resp_parts = [TextPart ''done''], resp_text = ''done''\<rparr>, world = 0,
                 charts = [], videoCards = [], toolCalls = [], trace = []\<rparr>"


section \<open>Tool executors (src/services/jsonTools.js)\<close>

subsection \<open>Values, records and built-ins\<close>

text \<open>
  A video is a JavaScript object read from JSON: its own properties, in the order
  \<open>Object.keys\<close> lists them, with scalar values. \<open>JInherited\<close> is what a lookup \<open>v[k]\<close>
  gives for a name that every object inherits from \<open>Object.prototype\<close> and the video does
  not define itself (a function, or the prototype object): it is neither \<open>undefined\<close> nor
  \<open>null\<close>, it is truthy and no conversion of it is a number. It is never a stored value.

  A stored number \<open>JNum x\<close> is a finite double, \<open>x\<close> the real it stands for (a JSON
  literal such as \<open>8.00005\<close> is stored as the double next to it). \<open>NaN\<close> is \<open>None\<close> where
  an operation can produce it. The comparators of the executors read only the sign of a
  difference of two numbers, which the rounding of doubles keeps, so they subtract
  exactly; the arithmetic of \<open>compute_stats_json\<close>, whose results are returned, is the
  arithmetic of doubles, with its rounding, its overflow and its infinities.

  A string is the list of its UTF-16 code units, and a \<open>char\<close> is a code unit below 256:
  the strings of the embedding are the strings of Latin-1 characters, \<open>CHR 0xA0\<close> the
  no-break space and \<open>CHR 0xC0\<close> to \<open>CHR 0xDE\<close> the accented capitals.
\<close>

datatype jsval = JUndefined | JNull | JBool bool | JNum real | JStr string | JInherited

type_synonym video = "(string \<times> jsval) list"

definition inheritedNames :: "string list" where
  "inheritedNames =
     [''constructor'', ''hasOwnProperty'', ''isPrototypeOf'', ''propertyIsEnumerable'',
      ''toLocaleString'', ''toString'', ''valueOf'', ''__defineGetter__'', ''__defineSetter__'',
      ''__lookupGetter__'', ''__lookupSetter__'', ''__proto__'']"

definition getProp :: "video \<Rightarrow> string \<Rightarrow> jsval" where
  "getProp v k =
     (case map_of v k of
        Some x \<Rightarrow> x
      | None \<Rightarrow> if k \<in> set inheritedNames then JInherited else JUndefined)"

definition Object_keys :: "video \<Rightarrow> string list" where
  "Object_keys v = map fst v"

text \<open>
  A number that an executor computes or parses is a double: a finite one, or one of the
  two infinities; \<open>NaN\<close> is \<open>None\<close>. The order is the order of the numbers.
\<close>

datatype double = NegInfinity | Finite real | PosInfinity

instantiation double :: linorder
begin

fun less_eq_double :: "double \<Rightarrow> double \<Rightarrow> bool" where
  "less_eq_double NegInfinity b = True"
| "less_eq_double (Finite x) NegInfinity = False"
| "less_eq_double (Finite x) (Finite y) = (x \<le> y)"
| "less_eq_double (Finite x) PosInfinity = True"
| "less_eq_double PosInfinity PosInfinity = True"
| "less_eq_double PosInfinity b = False"

definition less_double :: "double \<Rightarrow> double \<Rightarrow> bool" where
  "less_double a b \<longleftrightarrow> a \<le> b \<and> \<not> b \<le> a"

instance
proof
  fix x y z :: double
  show "(x < y) = (x \<le> y \<and> \<not> y \<le> x)"
    by (simp add: less_double_def)
  show "x \<le> x"
    by (cases x) simp_all
  show "x \<le> y \<Longrightarrow> y \<le> z \<Longrightarrow> x \<le> z"
    by (cases x; cases y; cases z) simp_all
  show "x \<le> y \<Longrightarrow> y \<le> x \<Longrightarrow> x = y"
    by (cases x; cases y) simp_all
  show "x \<le> y \<or> y \<le> x"
    by (cases x; cases y) auto
qed

end

text \<open>
  The built-ins of the host that read or write text are parameters: the executors pass
  their results along or compare them. \<open>None\<close> is \<open>NaN\<close> (an invalid date has the time
  value \<open>NaN\<close>). \<open>parseFloat\<close> of a text can be an infinity (\<open>parseFloat('Infinity')\<close>).
  \<open>argumentsLimit\<close> is the number of arguments that a call of the host can take: a
  spread call \<open>f(...a)\<close> of a longer array throws a \<open>RangeError\<close>.
\<close>

record host =
  parseFloat_str :: "string \<Rightarrow> double option"
  Number_str :: "string \<Rightarrow> real option"
  Date_parse :: "string \<Rightarrow> int option"
  toLocaleDateString :: "int option \<Rightarrow> string"
  String_num :: "real \<Rightarrow> string"
  argumentsLimit :: nat

fun truthy :: "jsval \<Rightarrow> bool" where
  "truthy JUndefined = False"
| "truthy JNull = False"
| "truthy (JBool b) = b"
| "truthy (JNum x) = (x \<noteq> 0)"
| "truthy (JStr s) = (s \<noteq> [])"
| "truthy JInherited = True"

text \<open>\<open>parseFloat(x)\<close> parses \<open>String(x)\<close>; the text of a finite number parses back to it.\<close>

fun parseFloat :: "host \<Rightarrow> jsval \<Rightarrow> double option" where
  "parseFloat h (JNum x) = Some (Finite x)"
| "parseFloat h (JStr s) = parseFloat_str h s"
| "parseFloat h _ = None"

text \<open>\<open>ToNumber\<close>, as the operator \<open>-\<close> applies it to its operands.\<close>

fun toNumber :: "host \<Rightarrow> jsval \<Rightarrow> real option" where
  "toNumber h JUndefined = None"
| "toNumber h JNull = Some 0"
| "toNumber h (JBool b) = Some (if b then 1 else 0)"
| "toNumber h (JNum x) = Some x"
| "toNumber h (JStr s) = Number_str h s"
| "toNumber h JInherited = None"

definition numDiff :: "host \<Rightarrow> jsval \<Rightarrow> jsval \<Rightarrow> real option" where
  "numDiff h x y =
     (case (toNumber h x, toNumber h y) of (Some a, Some b) \<Rightarrow> Some (a - b) | _ \<Rightarrow> None)"

text \<open>
  The time value of \<open>new Date(x)\<close>: a string is parsed, any other value is converted to
  a number, truncated and clipped to the range of dates.
\<close>

definition timeClip :: "real option \<Rightarrow> int option" where
  "timeClip t =
     (case t of
        None \<Rightarrow> None
      | Some x \<Rightarrow> if \<bar>x\<bar> \<le> 8640000000000000 then Some (if 0 \<le> x then \<lfloor>x\<rfloor> else \<lceil>x\<rceil>) else None)"

fun newDate :: "host \<Rightarrow> jsval \<Rightarrow> int option" where
  "newDate h (JStr s) = Date_parse h s"
| "newDate h x = timeClip (toNumber h x)"

definition dateDiff :: "int option \<Rightarrow> int option \<Rightarrow> real option" where
  "dateDiff a b = (case (a, b) of (Some x, Some y) \<Rightarrow> Some (of_int x - of_int y) | _ \<Rightarrow> None)"

text \<open>\<open>x || 0\<close>\<close>

definition orZero :: "jsval \<Rightarrow> jsval" where
  "orZero x = (if truthy x then x else JNum 0)"

text \<open>\<open>String(x)\<close>, as a template literal applies it.\<close>

fun toStr :: "host \<Rightarrow> jsval \<Rightarrow> string" where
  "toStr h JUndefined = ''undefined''"
| "toStr h JNull = ''null''"
| "toStr h (JBool b) = (if b then ''true'' else ''false'')"
| "toStr h (JNum x) = String_num h x"
| "toStr h (JStr s) = s"
| "toStr h JInherited = ''[object Object]''"

text \<open>
  The arguments of a call. JSON\_TOOL\_DECLARATIONS gives every parameter the type
  STRING; one that the model leaves out reads as \<open>undefined\<close>.
\<close>

record tool_args =
  a_field :: "string option"
  a_metric :: "string option"
  a_title :: "string option"
  a_query :: "string option"
  a_prompt :: "string option"

definition str_of :: "string option \<Rightarrow> string" where
  "str_of x = (case x of None \<Rightarrow> ''undefined'' | Some s \<Rightarrow> s)"

subsection \<open>Strings and the regular expressions of \<open>play_video\<close>\<close>

text \<open>
  The white space that \<open>trim\<close> removes and \<open>\s\<close> matches: among the code units below 256,
  tab, line feed, vertical tab, form feed, carriage return, space and no-break space.
  \<open>\d\<close> matches the ten ASCII digits. \<open>toLowerCase\<close> maps \<open>A\<close> to \<open>Z\<close> and the accented
  capitals \<open>0xC0\<close> to \<open>0xDE\<close> (\<open>0xD7\<close>, the multiplication sign, apart) to the letter 32
  code units further, and leaves every other code unit below 256.
\<close>

definition isSpace :: "char \<Rightarrow> bool" where
  "isSpace c \<longleftrightarrow>
     c \<in> set [CHR 0x09, CHR 0x0A, CHR 0x0B, CHR 0x0C, CHR 0x0D, CHR '' '', CHR 0xA0]"

definition isDigit :: "char \<Rightarrow> bool" where
  "isDigit c \<longleftrightarrow> c \<in> set ''0123456789''"

definition capitals :: string where
  "capitals = ''ABCDEFGHIJKLMNOPQRSTUVWXYZ'' @
     [CHR 0xC0, CHR 0xC1, CHR 0xC2, CHR 0xC3, CHR 0xC4, CHR 0xC5, CHR 0xC6, CHR 0xC7,
      CHR 0xC8, CHR 0xC9, CHR 0xCA, CHR 0xCB, CHR 0xCC, CHR 0xCD, CHR 0xCE, CHR 0xCF,
      CHR 0xD0, CHR 0xD1, CHR 0xD2, CHR 0xD3, CHR 0xD4, CHR 0xD5, CHR 0xD6, CHR 0xD8,
      CHR 0xD9, CHR 0xDA, CHR 0xDB, CHR 0xDC, CHR 0xDD, CHR 0xDE]"

definition smallLetters :: string where
  "smallLetters = ''abcdefghijklmnopqrstuvwxyz'' @
     [CHR 0xE0, CHR 0xE1, CHR 0xE2, CHR 0xE3, CHR 0xE4, CHR 0xE5, CHR 0xE6, CHR 0xE7,
      CHR 0xE8, CHR 0xE9, CHR 0xEA, CHR 0xEB, CHR 0xEC, CHR 0xED, CHR 0xEE, CHR 0xEF,
      CHR 0xF0, CHR 0xF1, CHR 0xF2, CHR 0xF3, CHR 0xF4, CHR 0xF5, CHR 0xF6, CHR 0xF8,
      CHR 0xF9, CHR 0xFA, CHR 0xFB, CHR 0xFC, CHR 0xFD, CHR 0xFE]"

definition lowerChar :: "char \<Rightarrow> char" where
  "lowerChar c = (case map_of (zip capitals smallLetters) c of Some d \<Rightarrow> d | None \<Rightarrow> c)"

definition toLowerCase :: "string \<Rightarrow> string" where
  "toLowerCase s = map lowerChar s"

definition trim :: "string \<Rightarrow> string" where
  "trim s = rev (dropWhile isSpace (rev (dropWhile isSpace s)))"

fun startsWith :: "string \<Rightarrow> string \<Rightarrow> bool" where
  "startsWith s [] = True"
| "startsWith [] (p # ps) = False"
| "startsWith (c # cs) (p # ps) = (c = p \<and> startsWith cs ps)"

text \<open>\<open>t.includes(term)\<close>\<close>

fun str_includes :: "string \<Rightarrow> string \<Rightarrow> bool" where
  "str_includes [] term = (term = [])"
| "str_includes (c # cs) term = (startsWith (c # cs) term \<or> str_includes cs term)"

text \<open>
  \<open>query.split(/\s+/)\<close>: the pieces between the maximal runs of white space; a run at
  either end leaves an empty piece there, and the empty string gives one empty piece.
\<close>

fun split_ws :: "string \<Rightarrow> string list" where
  "split_ws [] = [ []]"
| "split_ws (c # cs) =
     (if isSpace c then
        (case cs of
           [] \<Rightarrow> [ [], []]
         | d # ds \<Rightarrow> if isSpace d then split_ws cs else [] # split_ws cs)
      else (case split_ws cs of [] \<Rightarrow> [ [c]] | t # ts \<Rightarrow> (c # t) # ts))"

text \<open>
  \<open>query.match(/(\d+)(?:st|nd|rd|th)/)\<close>: the leftmost position where a run of digits is
  followed by one of the four suffixes; the group is that run of digits. \<open>\d+\<close> is greedy
  and a suffix starts with a letter, so the run taken at a position is the whole run of
  digits from there.
\<close>

definition ordSuffix :: "string \<Rightarrow> bool" where
  "ordSuffix s \<longleftrightarrow>
     startsWith s ''st'' \<or> startsWith s ''nd'' \<or> startsWith s ''rd'' \<or> startsWith s ''th''"

fun ordMatch :: "string \<Rightarrow> string option" where
  "ordMatch [] = None"
| "ordMatch (c # cs) =
     (if isDigit c \<and> ordSuffix (dropWhile isDigit (c # cs))
      then Some (takeWhile isDigit (c # cs))
      else ordMatch cs)"

definition digitVal :: "char \<Rightarrow> nat" where
  "digitVal c = (case map_of (zip ''0123456789'' [0, 1, 2, 3, 4, 5, 6, 7, 8, 9]) c of
                   Some d \<Rightarrow> d | None \<Rightarrow> 0)"

text \<open>\<open>parseInt(ds, 10)\<close> on a non-empty string of digits.\<close>

definition parseInt :: "string \<Rightarrow> nat" where
  "parseInt ds = foldl (\<lambda>n c. 10 * n + digitVal c) 0 ds"

text \<open>
  \<open>/most\s*view/\<close> and its like: somewhere in the string the first word, any white space,
  then the second word. The flag \<open>i\<close> changes nothing on a lower-cased query.
\<close>

fun wordsAt :: "string \<Rightarrow> string \<Rightarrow> string \<Rightarrow> bool" where
  "wordsAt w1 w2 s =
     (startsWith s w1 \<and> startsWith (dropWhile isSpace (drop (length w1) s)) w2)"

fun testWords :: "string \<Rightarrow> string \<Rightarrow> string \<Rightarrow> bool" where
  "testWords w1 w2 [] = wordsAt w1 w2 []"
| "testWords w1 w2 (c # cs) = (wordsAt w1 w2 (c # cs) \<or> testWords w1 w2 cs)"

subsection \<open>Arrays\<close>

text \<open>
  \<open>Array.prototype.sort\<close> sorts in place, is stable, and reads a \<open>NaN\<close> from the
  comparator as 0. For a comparator that orders the elements consistently every stable
  sort gives the same array; this is insertion sort. Where the comparator is not
  consistent (some comparisons are \<open>NaN\<close>), ECMAScript leaves the order to the
  implementation, and this definition is one such order.
\<close>

definition sortCompare :: "('a \<Rightarrow> 'a \<Rightarrow> real option) \<Rightarrow> 'a \<Rightarrow> 'a \<Rightarrow> real" where
  "sortCompare cmp x y = (case cmp x y of None \<Rightarrow> 0 | Some d \<Rightarrow> d)"

fun insertCmp :: "('a \<Rightarrow> 'a \<Rightarrow> real option) \<Rightarrow> 'a \<Rightarrow> 'a list \<Rightarrow> 'a list" where
  "insertCmp cmp x [] = [x]"
| "insertCmp cmp x (y # ys) =
     (if sortCompare cmp x y \<le> 0 then x # y # ys else y # insertCmp cmp x ys)"

definition js_sort :: "('a \<Rightarrow> 'a \<Rightarrow> real option) \<Rightarrow> 'a list \<Rightarrow> 'a list" where
  "js_sort cmp xs = foldr (insertCmp cmp) xs []"

text \<open>\<open>a[i]\<close> is \<open>undefined\<close> beyond the end of the array.\<close>

definition elemAt :: "'a list \<Rightarrow> nat \<Rightarrow> 'a option" where
  "elemAt xs i = (if i < length xs then Some (xs ! i) else None)"

text \<open>
  The arrays of videos live in a store: the array the caller passes (\<open>Videos\<close>) and the
  arrays the executor allocates. \<open>[...a]\<close> and \<open>a.filter(p)\<close> allocate a new array;
  \<open>a.sort(cmp)\<close> overwrites the array \<open>a\<close> refers to.
\<close>

datatype aref = Videos | Local nat

record store =
  st_videos :: "video list"
  st_locals :: "video list list"

fun read :: "aref \<Rightarrow> store \<Rightarrow> video list" where
  "read Videos s = st_videos s"
| "read (Local i) s = st_locals s ! i"

definition newArray :: "video list \<Rightarrow> store \<Rightarrow> aref \<times> store" where
  "newArray xs s = (Local (length (st_locals s)), s\<lparr>st_locals := st_locals s @ [xs]\<rparr>)"

fun sortInPlace :: "(video \<Rightarrow> video \<Rightarrow> real option) \<Rightarrow> aref \<Rightarrow> store \<Rightarrow> store" where
  "sortInPlace cmp Videos s = s\<lparr>st_videos := js_sort cmp (st_videos s)\<rparr>"
| "sortInPlace cmp (Local i) s =
     s\<lparr>st_locals := (st_locals s)[i := js_sort cmp (st_locals s ! i)]\<rparr>"

subsection \<open>Results\<close>

record stats =
  s_field :: "string option"
  s_count :: nat
  s_mean :: "double option"
  s_median :: "double option"
  s_std :: "double option"
  s_min :: double
  s_max :: double

record point =
  p_date :: string
  p_fullDate :: jsval
  p_value :: double
  p_title :: jsval

record chart =
  c_metric :: "string option"
  c_title :: string
  c_data :: "point list"

record card =
  k_title :: jsval
  k_video_url :: jsval
  k_thumbnail_url :: jsval
  k_view_count :: jsval
  k_like_count :: jsval
  k_duration :: jsval

text \<open>
  \<open>{ error }\<close>, the statistics, \<open>{ _chartType: 'metric_vs_time', ... }\<close>,
  \<open>{ _cardType: 'video', ... }\<close> and \<open>{ _action: 'generateImage', prompt }\<close>.
\<close>

datatype tool_result =
    ErrorResult string
  | StatsResult stats
  | ChartResult chart
  | CardResult card
  | ActionResult "string option"

subsection \<open>The arithmetic of doubles\<close>

text \<open>
  ECMAScript computes with IEEE 754 binary64 numbers: the result of an operation is the
  exact result rounded to the nearest double, a tie going to the double with an even
  significand. A double is an integer multiple of \<open>2 ^ (e - 52)\<close> below \<open>2 ^ 53\<close> times
  that, for an exponent \<open>e\<close> from \<open>-1022\<close> to \<open>1023\<close>; \<open>exponent a\<close> is the exponent of the
  doubles around \<open>a > 0\<close>, the largest \<open>e\<close> in that range with \<open>2 ^ e \<le> a\<close> (or \<open>-1022\<close>).
  A result that rounds to \<open>2 ^ 1024\<close> or more overflows to an infinity.
\<close>

function exponentUp :: "real \<Rightarrow> int \<Rightarrow> int" where
  "exponentUp a e = (if e < 1023 \<and> 2 powi (e + 1) \<le> a then exponentUp a (e + 1) else e)"
  by pat_completeness auto
termination
  by (relation "measure (\<lambda>(a, e). nat (1023 - e))") auto

declare exponentUp.simps [simp del]

function exponentDown :: "real \<Rightarrow> int \<Rightarrow> int" where
  "exponentDown a e = (if - 1022 < e \<and> a < 2 powi e then exponentDown a (e - 1) else e)"
  by pat_completeness auto
termination
  by (relation "measure (\<lambda>(a, e). nat (e + 1022))") auto

declare exponentDown.simps [simp del]

definition exponent :: "real \<Rightarrow> int" where
  "exponent a = (if 1 \<le> a then exponentUp a 0 else exponentDown a 0)"

definition roundEven :: "real \<Rightarrow> int" where
  "roundEven m =
     (if m - of_int \<lfloor>m\<rfloor> < 1 / 2 then \<lfloor>m\<rfloor>
      else if 1 / 2 < m - of_int \<lfloor>m\<rfloor> then \<lfloor>m\<rfloor> + 1
      else if even \<lfloor>m\<rfloor> then \<lfloor>m\<rfloor> else \<lfloor>m\<rfloor> + 1)"

definition binary64 :: "real \<Rightarrow> double" where
  "binary64 x =
     (if x = 0 then Finite 0
      else (let q = 2 powi (exponent \<bar>x\<bar> - 52);
                y = of_int (roundEven (\<bar>x\<bar> / q)) * q
            in if 2 ^ 1024 \<le> y then (if x < 0 then NegInfinity else PosInfinity)
               else Finite (if x < 0 then - y else y)))"

text \<open>
  \<open>a + b\<close>, \<open>- a\<close>, \<open>a - b\<close>, \<open>a / d\<close> for a divisor \<open>d > 0\<close> (the length of a non-empty array,
  or 2), \<open>a ** 2\<close> and \<open>Math.sqrt(a)\<close>. \<open>Math.sqrt\<close> and \<open>**\<close> are correctly rounded, as the
  hardware and the engines compute them.
\<close>

fun num_add :: "double option \<Rightarrow> double option \<Rightarrow> double option" where
  "num_add (Some (Finite x)) (Some (Finite y)) = Some (binary64 (x + y))"
| "num_add (Some PosInfinity) (Some NegInfinity) = None"
| "num_add (Some NegInfinity) (Some PosInfinity) = None"
| "num_add (Some PosInfinity) (Some b) = Some PosInfinity"
| "num_add (Some a) (Some PosInfinity) = Some PosInfinity"
| "num_add (Some NegInfinity) (Some b) = Some NegInfinity"
| "num_add (Some a) (Some NegInfinity) = Some NegInfinity"
| "num_add a b = None"

fun num_neg :: "double option \<Rightarrow> double option" where
  "num_neg None = None"
| "num_neg (Some NegInfinity) = Some PosInfinity"
| "num_neg (Some (Finite x)) = Some (Finite (- x))"
| "num_neg (Some PosInfinity) = Some NegInfinity"

definition num_sub :: "double option \<Rightarrow> double option \<Rightarrow> double option" where
  "num_sub a b = num_add a (num_neg b)"

fun num_div :: "double option \<Rightarrow> real \<Rightarrow> double option" where
  "num_div (Some (Finite x)) d = Some (binary64 (x / d))"
| "num_div a d = a"

fun num_sq :: "double option \<Rightarrow> double option" where
  "num_sq None = None"
| "num_sq (Some (Finite x)) = Some (binary64 (x * x))"
| "num_sq (Some a) = Some PosInfinity"

fun num_sqrt :: "double option \<Rightarrow> double option" where
  "num_sqrt (Some (Finite x)) = (if x < 0 then None else Some (binary64 (sqrt x)))"
| "num_sqrt (Some PosInfinity) = Some PosInfinity"
| "num_sqrt a = None"

subsection \<open>\<open>compute_stats_json\<close>\<close>

text \<open>
  \<^verbatim>\<open>
  const numericValues = (videos, field) =>
    videos.map((v) => parseFloat(v[field])).filter((n) => !isNaN(n));
  const median = (sorted) =>
    sorted.length % 2 === 0
      ? (sorted[sorted.length / 2 - 1] + sorted[sorted.length / 2]) / 2
      : sorted[Math.floor(sorted.length / 2)];
  const fmt = (n) => +n.toFixed(4);
  \<close>
  The values that \<open>filter\<close> keeps are numbers other than \<open>NaN\<close>. On the empty array both
  elements that \<open>median\<close> reads are \<open>undefined\<close> and their sum is \<open>NaN\<close>; on any other array
  its indices are in range.

  \<open>n.toFixed(4)\<close> is the text of the decimal with 4 places nearest to the exact value of
  \<open>n\<close>, the larger one of two in absolute value, with the sign of \<open>n\<close>; from \<open>10^21\<close> on it is
  the text of \<open>n\<close> itself, and so it is for an infinity and for \<open>NaN\<close>. The unary \<open>+\<close> reads
  the text back as the double nearest to it.
\<close>

definition numericValues :: "host \<Rightarrow> video list \<Rightarrow> string \<Rightarrow> double list" where
  "numericValues h videos field = List.map_filter (\<lambda>v. parseFloat h (getProp v field)) videos"

definition median :: "double list \<Rightarrow> double option" where
  "median sorted' =
     (if length sorted' mod 2 = 0
      then (if sorted' = [] then None
            else num_div (num_add (elemAt sorted' (length sorted' div 2 - 1))
                                  (elemAt sorted' (length sorted' div 2))) 2)
      else elemAt sorted' (length sorted' div 2))"

definition round4 :: "real \<Rightarrow> real" where
  "round4 x = of_int \<lfloor>x * 10 ^ 4 + 1 / 2\<rfloor> / 10 ^ 4"

fun fmt :: "double option \<Rightarrow> double option" where
  "fmt (Some (Finite n)) =
     Some (if 10 ^ 21 \<le> \<bar>n\<bar> then Finite n
           else if n < 0 then binary64 (- round4 (- n))
           else binary64 (round4 n))"
| "fmt a = a"

text \<open>
  \<open>Math.min(...vals)\<close> and \<open>Math.max(...vals)\<close>: the least and the greatest of the
  arguments, \<open>Infinity\<close> and \<open>-Infinity\<close> when there is none, and a \<open>RangeError\<close> when the
  array has more elements than a call takes arguments.
\<close>

definition Math_min :: "host \<Rightarrow> double list \<Rightarrow> exn + double" where
  "Math_min h xs =
     (if argumentsLimit h < length xs then Inl (Exn ''RangeError'')
      else Inr (foldl min PosInfinity xs))"

definition Math_max :: "host \<Rightarrow> double list \<Rightarrow> exn + double" where
  "Math_max h xs =
     (if argumentsLimit h < length xs then Inl (Exn ''RangeError'')
      else Inr (foldl max NegInfinity xs))"

text \<open>
  The comparator \<open>(a, b) => a - b\<close>: \<open>sort\<close> reads the sign of the difference, or \<open>NaN\<close>
  (the difference of two equal infinities).
\<close>

definition byValue :: "double \<Rightarrow> double \<Rightarrow> real option" where
  "byValue a b =
     (case num_sub (Some a) (Some b) of
        None \<Rightarrow> None
      | Some NegInfinity \<Rightarrow> Some (- 1)
      | Some (Finite d) \<Rightarrow> Some d
      | Some PosInfinity \<Rightarrow> Some 1)"

text \<open>
  \<^verbatim>\<open>
  const field = args.field;
  const vals = numericValues(videos, field);
  if (!vals.length) {
    const available = Object.keys(videos[0] || {}).join(', ');
    return { error: `No numeric values found for field "${field}". Available fields: ${available}` };
  }
  const mean = vals.reduce((a, b) => a + b, 0) / vals.length;
  const sorted = [...vals].sort((a, b) => a - b);
  const variance = vals.reduce((a, b) => a + (b - mean) ** 2, 0) / vals.length;
  return { field, count: vals.length, mean: fmt(mean), median: fmt(median(sorted)),
           std: fmt(Math.sqrt(variance)), min: Math.min(...vals), max: Math.max(...vals) };
  \<close>
  \<open>vals\<close> and \<open>sorted\<close> are arrays of numbers that the executor builds itself. Nothing
  before \<open>Math.min(...vals)\<close> throws or has an effect, so a \<open>RangeError\<close> of that call or of
  \<open>Math.max(...vals)\<close> is the outcome of the executor.
\<close>

definition compute_stats_json :: "host \<Rightarrow> tool_args \<Rightarrow> video list \<Rightarrow> exn + tool_result" where
  "compute_stats_json h args videos =
     (let field = str_of (a_field args);
          vals = numericValues h videos field
      in if vals = [] then
           (let available = join '', '' (Object_keys (case videos of [] \<Rightarrow> [] | v # vs \<Rightarrow> v))
            in Inr (ErrorResult (''No numeric values found for field \"'' @ field
                                 @ ''\". Available fields: '' @ available)))
         else
           (let mean = num_div (foldl (\<lambda>a b. num_add a (Some b)) (Some (Finite 0)) vals)
                               (real (length vals));
                sorted' = js_sort byValue vals;
                variance = num_div (foldl (\<lambda>a b. num_add a (num_sq (num_sub (Some b) mean)))
                                          (Some (Finite 0)) vals)
                                   (real (length vals))
            in case Math_min h vals of
                 Inl e \<Rightarrow> Inl e
               | Inr least \<Rightarrow>
                   (case Math_max h vals of
                      Inl e \<Rightarrow> Inl e
                    | Inr greatest \<Rightarrow>
                        Inr (StatsResult
                               \<lparr>s_field = a_field args, s_count = length vals, s_mean = fmt mean,
                                s_median = fmt (median sorted'), s_std = fmt (num_sqrt variance),
                                s_min = least, s_max = greatest\<rparr>))))"

subsection \<open>\<open>plot_metric_vs_time\<close>\<close>

text \<open>
  \<^verbatim>\<open>
  const metric = args.metric;
  const title = args.title || `${metric} over time`;
  const sorted = [...videos]
    .filter((v) => v.release_date && v[metric] !== undefined && v[metric] !== null)
    .sort((a, b) => new Date(a.release_date) - new Date(b.release_date));
  if (!sorted.length) {
    return { error: `No data found for metric "${metric}" with release dates.` };
  }
  const data = sorted.map((v) => ({
    date: new Date(v.release_date).toLocaleDateString('en-US', { month: 'short', year: 'numeric' }),
    fullDate: v.release_date,
    value: typeof v[metric] === 'number' ? v[metric] : parseFloat(v[metric]) || 0,
    title: v.title || '',
  }));
  return { _chartType: 'metric_vs_time', metric, title, data };
  \<close>
\<close>

definition kept :: "string \<Rightarrow> video \<Rightarrow> bool" where
  "kept metric v \<longleftrightarrow>
     truthy (getProp v ''release_date'') \<and> getProp v metric \<noteq> JUndefined \<and> getProp v metric \<noteq> JNull"

definition byReleaseDate :: "host \<Rightarrow> video \<Rightarrow> video \<Rightarrow> real option" where
  "byReleaseDate h a b =
     dateDiff (newDate h (getProp a ''release_date'')) (newDate h (getProp b ''release_date''))"

definition metricValue :: "host \<Rightarrow> jsval \<Rightarrow> double" where
  "metricValue h x =
     (case x of
        JNum n \<Rightarrow> Finite n
      | _ \<Rightarrow> (case parseFloat h x of None \<Rightarrow> Finite 0 | Some n \<Rightarrow> n))"

definition toPoint :: "host \<Rightarrow> string \<Rightarrow> video \<Rightarrow> point" where
  "toPoint h metric v =
     \<lparr>p_date = toLocaleDateString h (newDate h (getProp v ''release_date'')),
      p_fullDate = getProp v ''release_date'',
      p_value = metricValue h (getProp v metric),
      p_title = (if truthy (getProp v ''title'') then getProp v ''title'' else JStr [])\<rparr>"

definition plot_metric_vs_time :: "host \<Rightarrow> tool_args \<Rightarrow> store \<Rightarrow> tool_result \<times> store" where
  "plot_metric_vs_time h args s =
     (let metric = str_of (a_metric args);
          title = (case a_title args of
                     None \<Rightarrow> metric @ '' over time''
                   | Some t \<Rightarrow> if t = [] then metric @ '' over time'' else t);
          (copy, s1) = newArray (read Videos s) s;
          (filtered, s2) = newArray (filter (kept metric) (read copy s1)) s1;
          s3 = sortInPlace (byReleaseDate h) filtered s2;
          sorted' = read filtered s3
      in if sorted' = [] then
           (ErrorResult (''No data found for metric \"'' @ metric @ ''\" with release dates.''), s3)
         else
           (ChartResult \<lparr>c_metric = a_metric args, c_title = title,
                         c_data = map (toPoint h metric) sorted'\<rparr>, s3))"

subsection \<open>\<open>play_video\<close>\<close>

text \<open>
  \<^verbatim>\<open>
  const ordinals = { first: 0, second: 1, third: 2, fourth: 3, fifth: 4, sixth: 5,
                     seventh: 6, eighth: 7, ninth: 8, tenth: 9 };
  const ordMatch = query.match(/(\d+)(?:st|nd|rd|th)/);
  if (ordinals[query] !== undefined) {
    found = videos[ordinals[query]];
  } else if (ordMatch) {
    found = videos[parseInt(ordMatch[1], 10) - 1];
  }
  \<close>
  For a query that is a name every object inherits, \<open>ordinals[query]\<close> is a function or
  an object, not \<open>undefined\<close>: the first branch is taken and \<open>videos[...]\<close> of it is
  \<open>undefined\<close>.
\<close>

definition ordinals :: "(string \<times> nat) list" where
  "ordinals =
     [(''first'', 0), (''second'', 1), (''third'', 2), (''fourth'', 3), (''fifth'', 4),
      (''sixth'', 5), (''seventh'', 6), (''eighth'', 7), (''ninth'', 8), (''tenth'', 9)]"

definition ordinalFound :: "string \<Rightarrow> video list \<Rightarrow> video option" where
  "ordinalFound query videos =
     (case map_of ordinals query of
        Some i \<Rightarrow> elemAt videos i
      | None \<Rightarrow>
          if query \<in> set inheritedNames then None
          else (case ordMatch query of
                  Some ds \<Rightarrow> if parseInt ds = 0 then None else elemAt videos (parseInt ds - 1)
                | None \<Rightarrow> None))"

text \<open>
  \<^verbatim>\<open>
  if (!found) {
    const sorted = [...videos];
    if (/most\s*view/i.test(query)) {
      sorted.sort((a, b) => (b.view_count || 0) - (a.view_count || 0));
      found = sorted[0];
    } else if (/least\s*view/i.test(query)) {
      sorted.sort((a, b) => (a.view_count || 0) - (b.view_count || 0));
      found = sorted[0];
    } else if (/most\s*lik/i.test(query)) {
      sorted.sort((a, b) => (b.like_count || 0) - (a.like_count || 0));
      found = sorted[0];
    } else if (/latest|newest|recent/i.test(query)) {
      sorted.sort((a, b) => new Date(b.release_date || 0) - new Date(a.release_date || 0));
      found = sorted[0];
    } else if (/oldest|earliest/i.test(query)) {
      sorted.sort((a, b) => new Date(a.release_date || 0) - new Date(b.release_date || 0));
      found = sorted[0];
    } else if (/shortest/i.test(query)) {
      sorted.sort((a, b) => (a.duration || 0) - (b.duration || 0));
      found = sorted[0];
    } else if (/longest/i.test(query)) {
      sorted.sort((a, b) => (b.duration || 0) - (a.duration || 0));
      found = sorted[0];
    }
  }
  \<close>
  Every branch sorts the copy with its comparator and takes the first element.
\<close>

definition descBy :: "host \<Rightarrow> string \<Rightarrow> video \<Rightarrow> video \<Rightarrow> real option" where
  "descBy h f a b = numDiff h (orZero (getProp b f)) (orZero (getProp a f))"

definition ascBy :: "host \<Rightarrow> string \<Rightarrow> video \<Rightarrow> video \<Rightarrow> real option" where
  "ascBy h f a b = numDiff h (orZero (getProp a f)) (orZero (getProp b f))"

definition newestFirst :: "host \<Rightarrow> video \<Rightarrow> video \<Rightarrow> real option" where
  "newestFirst h a b =
     dateDiff (newDate h (orZero (getProp b ''release_date'')))
              (newDate h (orZero (getProp a ''release_date'')))"

definition oldestFirst :: "host \<Rightarrow> video \<Rightarrow> video \<Rightarrow> real option" where
  "oldestFirst h a b =
     dateDiff (newDate h (orZero (getProp a ''release_date'')))
              (newDate h (orZero (getProp b ''release_date'')))"

definition criteriaCmp :: "host \<Rightarrow> string \<Rightarrow> (video \<Rightarrow> video \<Rightarrow> real option) option" where
  "criteriaCmp h query =
     (if testWords ''most'' ''view'' query then Some (descBy h ''view_count'')
      else if testWords ''least'' ''view'' query then Some (ascBy h ''view_count'')
      else if testWords ''most'' ''lik'' query then Some (descBy h ''like_count'')
      else if str_includes query ''latest'' \<or> str_includes query ''newest''
              \<or> str_includes query ''recent'' then Some (newestFirst h)
      else if str_includes query ''oldest'' \<or> str_includes query ''earliest''
        then Some (oldestFirst h)
      else if str_includes query ''shortest'' then Some (ascBy h ''duration'')
      else if str_includes query ''longest'' then Some (descBy h ''duration'')
      else None)"

definition criteriaFound :: "host \<Rightarrow> string \<Rightarrow> store \<Rightarrow> video option \<times> store" where
  "criteriaFound h query s =
     (let (sorted', s1) = newArray (read Videos s) s
      in case criteriaCmp h query of
           None \<Rightarrow> (None, s1)
         | Some cmp \<Rightarrow> (let s2 = sortInPlace cmp sorted' s1 in (elemAt (read sorted' s2) 0, s2)))"

text \<open>
  \<^verbatim>\<open>
  if (!found) {
    const terms = query.split(/\s+/);
    found = videos.find((v) => {
      const t = (v.title || '').toLowerCase();
      return terms.every((term) => t.includes(term));
    });
    if (!found) {
      found = videos.find((v) => {
        const t = (v.title || '').toLowerCase();
        return terms.some((term) => term.length > 2 && t.includes(term));
      });
    }
  }
  \<close>
  A title that is truthy and not a string has no method \<open>toLowerCase\<close>: the call throws
  a \<open>TypeError\<close>, which leaves \<open>find\<close> and the executor.
\<close>

definition titleLower :: "video \<Rightarrow> exn + string" where
  "titleLower v =
     (let t = getProp v ''title''
      in if truthy t
         then (case t of JStr s \<Rightarrow> Inr (toLowerCase s) | _ \<Rightarrow> Inl (Exn ''TypeError''))
         else Inr (toLowerCase []))"

fun findByTitle :: "(string \<Rightarrow> bool) \<Rightarrow> video list \<Rightarrow> exn + video option" where
  "findByTitle p [] = Inr None"
| "findByTitle p (v # vs) =
     (case titleLower v of
        Inl e \<Rightarrow> Inl e
      | Inr t \<Rightarrow> if p t then Inr (Some v) else findByTitle p vs)"

definition everyTerm :: "string list \<Rightarrow> string \<Rightarrow> bool" where
  "everyTerm terms t = list_all (\<lambda>term. str_includes t term) terms"

definition someTerm :: "string list \<Rightarrow> string \<Rightarrow> bool" where
  "someTerm terms t = list_ex (\<lambda>term. 2 < length term \<and> str_includes t term) terms"

definition titleFound :: "string \<Rightarrow> video list \<Rightarrow> exn + video option" where
  "titleFound query videos =
     (let terms = split_ws query
      in case findByTitle (everyTerm terms) videos of
           Inl e \<Rightarrow> Inl e
         | Inr (Some v) \<Rightarrow> Inr (Some v)
         | Inr None \<Rightarrow> findByTitle (someTerm terms) videos)"

text \<open>
  \<^verbatim>\<open>
  if (!found) return { error: `No video found matching "${args.query}".` };
  return {
    _cardType: 'video',
    title: found.title,
    video_url: found.video_url,
    thumbnail_url: found.thumbnail_url || `https://i.ytimg.com/vi/${found.video_id}/hqdefault.jpg`,
    view_count: found.view_count,
    like_count: found.like_count,
    duration: found.duration,
  };
  \<close>
\<close>

definition toCard :: "host \<Rightarrow> video \<Rightarrow> card" where
  "toCard h found =
     \<lparr>k_title = getProp found ''title'',
      k_video_url = getProp found ''video_url'',
      k_thumbnail_url =
        (if truthy (getProp found ''thumbnail_url'') then getProp found ''thumbnail_url''
         else JStr (''https://i.ytimg.com/vi/'' @ toStr h (getProp found ''video_id'')
                    @ ''/hqdefault.jpg'')),
      k_view_count = getProp found ''view_count'',
      k_like_count = getProp found ''like_count'',
      k_duration = getProp found ''duration''\<rparr>"

text \<open>
  \<^verbatim>\<open>
  const query = (args.query || '').toLowerCase().trim();
  if (!videos.length) return { error: 'No videos loaded.' };
  let found = null;
  \<close>
  followed by the three blocks above. A video is an object, so \<open>!found\<close> holds exactly when
  nothing was found.
\<close>

definition normalize :: "string option \<Rightarrow> string" where
  "normalize q = trim (toLowerCase (case q of None \<Rightarrow> [] | Some x \<Rightarrow> x))"

definition notFound :: "tool_args \<Rightarrow> tool_result" where
  "notFound args = ErrorResult (''No video found matching \"'' @ str_of (a_query args) @ ''\".'')"

definition play_video :: "host \<Rightarrow> tool_args \<Rightarrow> store \<Rightarrow> (exn + tool_result) \<times> store" where
  "play_video h args s =
     (let query = normalize (a_query args)
      in if read Videos s = [] then (Inr (ErrorResult ''No videos loaded.''), s)
         else
           (let found0 = ordinalFound query (read Videos s);
                (found1, s1) = (if found0 = None then criteriaFound h query s else (found0, s));
                found2 = (if found1 = None then titleFound query (read Videos s1)
                          else Inr found1)
            in case found2 of
                 Inl e \<Rightarrow> (Inl e, s1)
               | Inr None \<Rightarrow> (Inr (notFound args), s1)
               | Inr (Some v) \<Rightarrow> (Inr (CardResult (toCard h v)), s1)))"

subsection \<open>\<open>executeJsonTool\<close>\<close>

text \<open>
  \<^verbatim>\<open>
  export function executeJsonTool(toolName, args, videos) {
    switch (toolName) {
      case 'compute_stats_json': { ... }
      case 'plot_metric_vs_time': { ... }
      case 'play_video': { ... }
      case 'generateImage': {
        return { _action: 'generateImage', prompt: args.prompt };
      }
      default:
        return { error: `Unknown tool: ${toolName}` };
    }
  }
  \<close>
  The executor never assigns to a property of a video, so the videos are values and
  only the arrays are in the store. The result is the returned object or the exception
  thrown, and the store after the call.
\<close>

definition executeJsonTool_st ::
  "host \<Rightarrow> string \<Rightarrow> tool_args \<Rightarrow> store \<Rightarrow> (exn + tool_result) \<times> store" where
  "executeJsonTool_st h toolName args s =
     (if toolName = ''compute_stats_json'' then
        (compute_stats_json h args (read Videos s), s)
      else if toolName = ''plot_metric_vs_time'' then
        (let (r, s1) = plot_metric_vs_time h args s in (Inr r, s1))
      else if toolName = ''play_video'' then play_video h args s
      else if toolName = ''generateImage'' then (Inr (ActionResult (a_prompt args)), s)
      else (Inr (ErrorResult (''Unknown tool: '' @ toolName)), s))"

text \<open>A call with the array \<open>videos\<close>: what it returns or throws.\<close>

definition callStore :: "video list \<Rightarrow> store" where
  "callStore videos = \<lparr>st_videos = videos, st_locals = []\<rparr>"

definition executeJsonTool :: "host \<Rightarrow> string \<Rightarrow> tool_args \<Rightarrow> video list \<Rightarrow> exn + tool_result" where
  "executeJsonTool h toolName args videos =
     fst (executeJsonTool_st h toolName args (callStore videos))"

text \<open>The tags that the orchestrator tests on a result of this executor.\<close>

fun hasChartType :: "tool_result \<Rightarrow> bool" where
  "hasChartType (ChartResult c) = True"
| "hasChartType _ = False"

fun isVideoCard :: "tool_result \<Rightarrow> bool" where
  "isVideoCard (CardResult k) = True"
| "isVideoCard _ = False"


section \<open>Notions used in the statements\<close>

subsection \<open>Statistics\<close>



text \<open>The fields that the error of \<open>compute_stats_json\<close> lists: the keys of the first video.\<close>

definition firstKeys :: "video list \<Rightarrow> string list" where
  "firstKeys videos = Object_keys (case videos of [] \<Rightarrow> [] | v # vs \<Rightarrow> v)"

subsection \<open>The strategies of \<open>play_video\<close>, as functions of the array's content\<close>

text \<open>
  What the criteria block finds, what the numeral-suffix branch finds, and what
  \<open>play_video\<close> returns once the ordinal block has left \<open>found\<close>. The lemmas
  \<open>criteriaFound_result\<close> and \<open>play_video_call\<close> below relate them to the executor.
\<close>

definition criteriaPick :: "host \<Rightarrow> string \<Rightarrow> video list \<Rightarrow> video option" where
  "criteriaPick h query videos =
     (case criteriaCmp h query of None \<Rightarrow> None | Some cmp \<Rightarrow> elemAt (js_sort cmp videos) 0)"

definition numeralFound :: "string \<Rightarrow> video list \<Rightarrow> video option" where
  "numeralFound query videos =
     (case ordMatch query of
        Some ds \<Rightarrow> if parseInt ds = 0 then None else elemAt videos (parseInt ds - 1)
      | None \<Rightarrow> None)"

definition afterOrdinal ::
  "host \<Rightarrow> tool_args \<Rightarrow> video list \<Rightarrow> video option \<Rightarrow> exn + tool_result" where
  "afterOrdinal h args videos found =
     (case found of
        Some v \<Rightarrow> Inr (CardResult (toCard h v))
      | None \<Rightarrow>
          (case criteriaPick h (normalize (a_query args)) videos of
             Some v \<Rightarrow> Inr (CardResult (toCard h v))
           | None \<Rightarrow>
               (case titleFound (normalize (a_query args)) videos of
                  Inl e \<Rightarrow> Inl e
                | Inr None \<Rightarrow> Inr (notFound args)
                | Inr (Some v) \<Rightarrow> Inr (CardResult (toCard h v)))))"

text \<open>The number that a comparator reads in the field \<open>f\<close> of a video: \<open>v.f || 0\<close>.\<close>

definition countOf :: "host \<Rightarrow> string \<Rightarrow> video \<Rightarrow> real option" where
  "countOf h f v = toNumber h (orZero (getProp v f))"

text \<open>
  A title that is a string or falsy (its lower-cased text is then defined), that text,
  and a title that contains one of some terms.
\<close>

definition titleIsText :: "video \<Rightarrow> bool" where
  "titleIsText v = (case titleLower v of Inl e \<Rightarrow> False | Inr t \<Rightarrow> True)"

definition titleText :: "video \<Rightarrow> string" where
  "titleText v = (case titleLower v of Inl e \<Rightarrow> [] | Inr t \<Rightarrow> t)"

definition mentions :: "string list \<Rightarrow> video \<Rightarrow> bool" where
  "mentions terms v = list_ex (\<lambda>term. str_includes (titleText v) term) terms"

subsection \<open>Charts\<close>

text \<open>
  The time value of a video's release date, and the order of two time values: an
  invalid date is in no order with any other.
\<close>

definition timeOf :: "host \<Rightarrow> video \<Rightarrow> int option" where
  "timeOf h v = newDate h (getProp v ''release_date'')"

fun notAfter :: "int option \<Rightarrow> int option \<Rightarrow> bool" where
  "notAfter (Some a) (Some b) = (a \<le> b)"
| "notAfter _ _ = False"

subsection \<open>Sample inputs\<close>

text \<open>
  A host that knows the few strings of the samples: \<open>parseFloat('12.5')\<close>, two ISO dates
  (midnight UTC, in milliseconds) and their short display form. A call takes 65535
  arguments.
\<close>

definition sampleHost :: host where
  "sampleHost =
     \<lparr>parseFloat_str = (\<lambda>s. if s = ''12.5'' then Some (Finite 12.5) else None),
      Number_str = (\<lambda>s. if s = ''12.5'' then Some 12.5 else None),
      Date_parse = (\<lambda>s. if s = ''2024-01-01'' then Some 1704067200000
                         else if s = ''2023-01-01'' then Some 1672531200000 else None),
      toLocaleDateString = (\<lambda>t. if t = None then ''Invalid Date''
                                 else if t = Some 1704067200000 then ''Jan 2024'' else ''Jan 2023''),
      String_num = (\<lambda>x. ''0''),
      argumentsLimit = 65535\<rparr>"

definition noArgs :: tool_args where
  "noArgs = \<lparr>a_field = None, a_metric = None, a_title = None, a_query = None, a_prompt = None\<rparr>"

definition sampleVideos :: "video list" where
  "sampleVideos =
     [ [(''title'', JStr ''A''), (''view_count'', JNum 100)],
      [(''title'', JStr ''B''), (''view_count'', JNum 300)],
      [(''title'', JStr ''C''), (''view_count'', JNum 300)]]"

definition twoVideos :: "video list" where
  "twoVideos = [ [(''title'', JStr ''Intro''), (''video_id'', JStr ''a1'')],
                [(''title'', JStr ''My first video''), (''video_id'', JStr ''b2'')]]"

definition plainVideos :: "video list" where
  "plainVideos = [ [(''title'', JStr ''A'')], [(''title'', JStr ''B'')], [(''title'', JStr ''C'')]]"

definition theVideos :: "video list" where
  "theVideos = [ [(''title'', JStr ''Intro'')], [(''title'', JStr ''The making of'')],
                [(''title'', JStr ''Outro'')]]"

definition datedVideos :: "video list" where
  "datedVideos =
     [ [(''title'', JStr ''A''), (''release_date'', JStr ''2024-01-01''), (''view_count'', JNum 10)],
      [(''title'', JStr ''B''), (''release_date'', JStr ''2023-01-01''), (''view_count'', JStr ''12.5'')],
      [(''title'', JStr ''C''), (''view_count'', JNum 30)],
      [(''title'', JStr ''D''), (''release_date'', JStr ''2023-01-01''), (''view_count'', JNull)]]"


section \<open>Properties of the orchestrator and the adapter\<close>

declare jsonToolLoop.simps [simp del] csvToolLoop.simps [simp del]

lemma invocations_append [simp]: "invocations (xs @ ys) = invocations xs + invocations ys"
  by (simp add: invocations_def)

lemma invocations_simps [simp]:
  "invocations (ExecuteFn n a r # tr) = Suc (invocations tr)"
  "invocations (SendMessage q # tr) = invocations tr" "invocations [] = 0"
  by (simp_all add: invocations_def)

lemma find_hasFunctionCall_cases:
  obtains "find hasFunctionCall ps = None" "\<forall>p \<in> set ps. \<not> hasFunctionCall p"
  | name args where "find hasFunctionCall ps = Some (FunctionCallPart name args)"
proof (cases "find hasFunctionCall ps")
  case None
  then show ?thesis using that(1) by (simp add: find_None_iff)
next
  case (Some p)
  then have "hasFunctionCall p" by (auto simp: find_Some_iff)
  then obtain name args where "p = FunctionCallPart name args"
    by (cases p) auto
  with Some show ?thesis using that(2) by simp
qed

lemma jsonToolLoop_cap:
  "\<not> rnd < 5 \<Longrightarrow> jsonToolLoop sendMessage executeFn chartType cardVideo rnd st = Inr st"
  by (subst jsonToolLoop.simps) simp

lemma jsonToolLoop_break:
  "find hasFunctionCall (resp_parts (response st)) = None \<Longrightarrow>
   jsonToolLoop sendMessage executeFn chartType cardVideo rnd st = Inr st"
  by (subst jsonToolLoop.simps) simp

lemma jsonToolLoop_throw:
  "rnd < 5 \<Longrightarrow> find hasFunctionCall (resp_parts (response st)) = Some (FunctionCallPart name args) \<Longrightarrow>
   executeFn (world st) name args = (Inl e, w) \<Longrightarrow>
   jsonToolLoop sendMessage executeFn chartType cardVideo rnd st =
     Inl (e, st\<lparr>world := w, trace := trace st @ [ExecuteFn name args (Inl e)]\<rparr>)"
  by (subst jsonToolLoop.simps) simp

lemma jsonToolLoop_send_fails:
  "rnd < 5 \<Longrightarrow> find hasFunctionCall (resp_parts (response st)) = Some (FunctionCallPart name args) \<Longrightarrow>
   executeFn (world st) name args = (Inr toolResult, w) \<Longrightarrow>
   sendMessage w (FunctionResponse name toolResult) = (Inl e, w') \<Longrightarrow>
   jsonToolLoop sendMessage executeFn chartType cardVideo rnd st =
     Inl (e, (jsonRecorded chartType cardVideo name args toolResult w st)\<lparr>world := w'\<rparr>)"
  by (subst jsonToolLoop.simps) (simp add: jsonRecorded_def Let_def)

lemma jsonToolLoop_next:
  "rnd < 5 \<Longrightarrow> find hasFunctionCall (resp_parts (response st)) = Some (FunctionCallPart name args) \<Longrightarrow>
   executeFn (world st) name args = (Inr toolResult, w) \<Longrightarrow>
   sendMessage w (FunctionResponse name toolResult) = (Inr resp, w') \<Longrightarrow>
   jsonToolLoop sendMessage executeFn chartType cardVideo rnd st =
     jsonToolLoop sendMessage executeFn chartType cardVideo (rnd + 1)
       ((jsonRecorded chartType cardVideo name args toolResult w st)\<lparr>response := resp, world := w'\<rparr>)"
  by (subst jsonToolLoop.simps) (simp add: jsonRecorded_def Let_def)

text \<open>The cases of one round of the loop.\<close>

lemma jsonToolLoop_round_cases:
  assumes "rnd < 5"
  obtains
    (break) "find hasFunctionCall (resp_parts (response st)) = None"
      "jsonToolLoop sendMessage executeFn chartType cardVideo rnd st = Inr st"
  | (throw) name args e w where
      "jsonToolLoop sendMessage executeFn chartType cardVideo rnd st =
         Inl (e, st\<lparr>world := w, trace := trace st @ [ExecuteFn name args (Inl e)]\<rparr>)"
  | (send_fails) name args toolResult w e w' where
      "jsonToolLoop sendMessage executeFn chartType cardVideo rnd st =
         Inl (e, (jsonRecorded chartType cardVideo name args toolResult w st)\<lparr>world := w'\<rparr>)"
  | (continue) name args toolResult w resp w' where
      "jsonToolLoop sendMessage executeFn chartType cardVideo rnd st =
         jsonToolLoop sendMessage executeFn chartType cardVideo (rnd + 1)
           ((jsonRecorded chartType cardVideo name args toolResult w st)\<lparr>response := resp, world := w'\<rparr>)"
proof (cases rule: find_hasFunctionCall_cases [of "resp_parts (response st)"])
  case 1
  then show ?thesis using break by (simp add: jsonToolLoop_break)
next
  case (2 name args)
  obtain out w where ex: "executeFn (world st) name args = (out, w)"
    by (cases "executeFn (world st) name args")
  show ?thesis
  proof (cases out)
    case (Inl e)
    then show ?thesis using throw jsonToolLoop_throw [OF assms 2] ex by blast
  next
    case (Inr toolResult)
    obtain out' w' where se: "sendMessage w (FunctionResponse name toolResult) = (out', w')"
      by (cases "sendMessage w (FunctionResponse name toolResult)")
    show ?thesis
    proof (cases out')
      case (Inl e)
      then show ?thesis
        using send_fails jsonToolLoop_send_fails [OF assms 2] ex se Inr by blast
    next
      case r: (Inr resp)
      then show ?thesis
        using continue jsonToolLoop_next [OF assms 2] ex se Inr by blast
    qed
  qed
qed

lemma jsonToolLoop_bound:
  "rnd \<le> 5 \<Longrightarrow>
   invocations (trace (final_state (jsonToolLoop sendMessage executeFn chartType cardVideo rnd st))) + rnd
     \<le> invocations (trace st) + 5 \<and>
   length (toolCalls (final_state (jsonToolLoop sendMessage executeFn chartType cardVideo rnd st))) + rnd
     \<le> length (toolCalls st) + 5"
proof (induction "5 - rnd" arbitrary: rnd st)
  case 0
  then show ?case by (simp add: jsonToolLoop_cap final_state_def)
next
  case (Suc k)
  then have lt: "rnd < 5" by simp
  from lt show ?case
  proof (cases rule: jsonToolLoop_round_cases [where st = st and sendMessage = sendMessage
           and executeFn = executeFn and chartType = chartType and cardVideo = cardVideo])
    case break
    then show ?thesis using Suc.prems by (simp add: final_state_def)
  next
    case (throw name args e w)
    then show ?thesis using lt by (simp add: final_state_def)
  next
    case (send_fails name args toolResult w e w')
    then show ?thesis using lt by (simp add: final_state_def jsonRecorded_def)
  next
    case (continue name args toolResult w resp w')
    have "k = 5 - (rnd + 1)" "rnd + 1 \<le> 5" using Suc.hyps(2) lt by simp_all
    from Suc.hyps(1) [OF this, of "(jsonRecorded chartType cardVideo name args toolResult w st)\<lparr>response := resp, world := w'\<rparr>"]
    show ?thesis using lt continue by (simp add: jsonRecorded_def)
  qed
qed

lemma csvToolLoop_eq_json:
  "csvToolLoop sendMessage executeFn chartType rnd st =
   jsonToolLoop sendMessage executeFn chartType (\<lambda>r. False) rnd st"
proof (induction "5 - rnd" arbitrary: rnd st)
  case 0
  then show ?case
    by (subst csvToolLoop.simps, subst jsonToolLoop.simps) simp
next
  case (Suc k)
  then have lt: "rnd < 5" by simp
  have k: "k = 5 - Suc rnd" using Suc.hyps(2) by simp
  show ?case
    by (subst csvToolLoop.simps, subst jsonToolLoop.simps)
       (simp add: Let_def Suc.hyps(1) [OF k] split: option.split part.split sum.split prod.split)
qed

lemma jsonToolLoop_run_bound:
  "invocations (trace (final_state (jsonToolLoop sendMessage executeFn chartType cardVideo 0
      \<lparr>response = resp, world = w, charts = [], videoCards = [], toolCalls = [],
       trace = [SendMessage (Message m)]\<rparr>))) \<le> 5 \<and>
   length (toolCalls (final_state (jsonToolLoop sendMessage executeFn chartType cardVideo 0
      \<lparr>response = resp, world = w, charts = [], videoCards = [], toolCalls = [],
       trace = [SendMessage (Message m)]\<rparr>))) \<le> 5"
  using jsonToolLoop_bound [of 0 sendMessage executeFn chartType cardVideo
      "\<lparr>response = resp, world = w, charts = [], videoCards = [], toolCalls = [],
       trace = [SendMessage (Message m)]\<rparr>"]
  by simp

lemma chatWithJsonTools_bound:
  "invocations (snd (chatWithJsonTools startChat sendMessage chartType cardVideo
        systemInstruction w0 history newMessage executeFn)) \<le> 5 \<and>
   (case fst (chatWithJsonTools startChat sendMessage chartType cardVideo
        systemInstruction w0 history newMessage executeFn) of
      Inl e \<Rightarrow> True | Inr r \<Rightarrow> length (res_toolCalls r) \<le> 5)"
proof -
  obtain out w where s: "sendMessage (startChat w0 (chatHistory systemInstruction history))
                           (Message newMessage) = (out, w)"
    by (cases "sendMessage (startChat w0 (chatHistory systemInstruction history)) (Message newMessage)")
  show ?thesis
  proof (cases out)
    case (Inl e)
    then show ?thesis using s by (simp add: chatWithJsonTools_def)
  next
    case (Inr resp)
    show ?thesis
      using jsonToolLoop_run_bound [of sendMessage executeFn chartType cardVideo resp w newMessage]
      by (simp add: chatWithJsonTools_def s Inr final_state_def finish_def
            split: sum.splits prod.splits)
  qed
qed

lemma chatWithCsvTools_bound:
  "invocations (snd (chatWithCsvTools startChat sendMessage chartType
        systemInstruction w0 history newMessage csvHeaders executeFn)) \<le> 5 \<and>
   (case fst (chatWithCsvTools startChat sendMessage chartType
        systemInstruction w0 history newMessage csvHeaders executeFn) of
      Inl e \<Rightarrow> True | Inr r \<Rightarrow> length (res_toolCalls r) \<le> 5)"
proof -
  obtain out w where s: "sendMessage (startChat w0 (chatHistory systemInstruction history))
                           (Message (msgWithContext csvHeaders newMessage)) = (out, w)"
    by (cases "sendMessage (startChat w0 (chatHistory systemInstruction history))
                 (Message (msgWithContext csvHeaders newMessage))")
  show ?thesis
  proof (cases out)
    case (Inl e)
    then show ?thesis using s by (simp add: chatWithCsvTools_def)
  next
    case (Inr resp)
    show ?thesis
      using jsonToolLoop_run_bound [of sendMessage executeFn chartType "\<lambda>r. False" resp w
               "msgWithContext csvHeaders newMessage"]
      by (simp add: chatWithCsvTools_def csvToolLoop_eq_json s Inr final_state_def finish_def
            split: sum.splits prod.splits)
  qed
qed

text \<open>
  Claim C1. For every history, user message, model provider and executor (with any
  effects on the state outside), one call of \<open>chatWithJsonTools\<close> or \<open>chatWithCsvTools\<close>
  invokes \<open>executeFn\<close> at most 5 times and returns a log of at most 5 tool calls, whatever
  the model answers; and a loop whose current response has no function-call part returns
  at once, with its state unchanged (no further call of the executor or of the model).
\<close>

theorem tool_invocations_at_most_five:
  "invocations (snd (chatWithJsonTools startChat sendMessage chartType cardVideo
        systemInstruction w0 history newMessage executeFn)) \<le> 5 \<and>
   (case fst (chatWithJsonTools startChat sendMessage chartType cardVideo
        systemInstruction w0 history newMessage executeFn) of
      Inl e \<Rightarrow> True | Inr r \<Rightarrow> length (res_toolCalls r) \<le> 5) \<and>
   invocations (snd (chatWithCsvTools startChat sendMessage chartType
        systemInstruction w0 history newMessage csvHeaders executeFn)) \<le> 5 \<and>
   (case fst (chatWithCsvTools startChat sendMessage chartType
        systemInstruction w0 history newMessage csvHeaders executeFn) of
      Inl e \<Rightarrow> True | Inr r \<Rightarrow> length (res_toolCalls r) \<le> 5) \<and>
   ((\<forall>p \<in> set (resp_parts (response st)). \<not> hasFunctionCall p) \<longrightarrow>
      jsonToolLoop sendMessage executeFn chartType cardVideo rnd st = Inr st \<and>
      csvToolLoop sendMessage executeFn chartType rnd st = Inr st)"
proof -
  have "jsonToolLoop sendMessage executeFn chartType cardVideo rnd st = Inr st \<and>
        csvToolLoop sendMessage executeFn chartType rnd st = Inr st"
    if "\<forall>p \<in> set (resp_parts (response st)). \<not> hasFunctionCall p"
  proof -
    from that have "find hasFunctionCall (resp_parts (response st)) = None"
      by (simp add: find_None_iff)
    then show ?thesis by (simp add: jsonToolLoop_break csvToolLoop_eq_json)
  qed
  then show ?thesis
    using chatWithJsonTools_bound [of startChat sendMessage chartType cardVideo
            systemInstruction w0 history newMessage executeFn]
          chatWithCsvTools_bound [of startChat sendMessage chartType
            systemInstruction w0 history newMessage csvHeaders executeFn]
    by blast
qed

text \<open>
  A model that proposes a call in every response reaches the cap: exactly 5 invocations.
\<close>

theorem tool_invocations_at_most_five_witness:
  "jsonToolLoop greedyModel countingExecutor (\<lambda>r. False) (\<lambda>r. False) 0 quietState
     = Inr quietState \<and>
   invocations (snd (chatWithJsonTools (\<lambda>w h. w) greedyModel (\<lambda>r. False) (\<lambda>r. False)
        ''persona'' 0 [] ''play everything'' countingExecutor)) = 5"
proof -
  have h: "\<forall>p \<in> set (resp_parts (response quietState)). \<not> hasFunctionCall p"
    by (simp add: quietState_def)
  have five: "invocations (snd (chatWithJsonTools (\<lambda>w h. w) greedyModel (\<lambda>r. False) (\<lambda>r. False)
        ''persona'' 0 [] ''play everything'' countingExecutor)) = 5"
    by (simp add: chatWithJsonTools_def greedyModel_def countingExecutor_def
          jsonToolLoop.simps Let_def)
  from tool_invocations_at_most_five [of "\<lambda>w h. w" greedyModel "\<lambda>r. False" "\<lambda>r. False"
      "''persona''" 0 "[]" "''play everything''" countingExecutor "[]" quietState 0] h five
  show ?thesis by simp
qed

lemma noThrowSoFar_simps [simp]:
  "noThrowSoFar []"
  "noThrowSoFar (tr @ [ExecuteFn n a (Inr r)]) = noThrowSoFar tr"
  "noThrowSoFar (tr @ [SendMessage q]) = noThrowSoFar tr"
  "noThrowSoFar (tr @ [ExecuteFn n a (Inr r), SendMessage q]) = noThrowSoFar tr"
  by (simp_all add: noThrowSoFar_def)

lemma noThrowSoFar_threw: "noThrowSoFar tr \<Longrightarrow> ev \<in> set tr \<Longrightarrow> \<not> threw ev"
  by (simp add: noThrowSoFar_def list_all_iff)

lemma throwIsLast_noThrow: "noThrowSoFar tr \<Longrightarrow> throwIsLast e tr"
  unfolding throwIsLast_def using noThrowSoFar_threw by fastforce

lemma throwIsLast_snoc:
  "noThrowSoFar tr \<Longrightarrow> throwIsLast e (tr @ [ExecuteFn name args (Inl e)])"
  unfolding throwIsLast_def using noThrowSoFar_threw by fastforce

lemma jsonToolLoop_throw_inv:
  "noThrowSoFar (trace st) \<Longrightarrow>
   (case jsonToolLoop sendMessage executeFn chartType cardVideo rnd st of
      Inr st' \<Rightarrow> noThrowSoFar (trace st')
    | Inl (e, st') \<Rightarrow> throwIsLast e (trace st'))"
proof (induction "5 - rnd" arbitrary: rnd st)
  case 0
  then show ?case by (simp add: jsonToolLoop_cap)
next
  case (Suc k)
  then have lt: "rnd < 5" by simp
  from lt show ?case
  proof (cases rule: jsonToolLoop_round_cases [where st = st and sendMessage = sendMessage
           and executeFn = executeFn and chartType = chartType and cardVideo = cardVideo])
    case break
    then show ?thesis using Suc.prems by simp
  next
    case (throw name args e w)
    then show ?thesis using throwIsLast_snoc [OF Suc.prems] by simp
  next
    case (send_fails name args toolResult w e w')
    have "noThrowSoFar (trace (jsonRecorded chartType cardVideo name args toolResult w st))"
      using Suc.prems by (simp add: jsonRecorded_def)
    then show ?thesis using send_fails by (simp add: throwIsLast_noThrow)
  next
    case (continue name args toolResult w resp w')
    have k: "k = 5 - (rnd + 1)" using Suc.hyps(2) by simp
    have inv: "noThrowSoFar (trace
        ((jsonRecorded chartType cardVideo name args toolResult w st)\<lparr>response := resp, world := w'\<rparr>))"
      using Suc.prems by (simp add: jsonRecorded_def)
    from Suc.hyps(1) [OF k inv] show ?thesis using continue by simp
  qed
qed

lemma chatWithJsonTools_throw:
  assumes "ExecuteFn name args (Inl e) \<in> set (snd (chatWithJsonTools startChat sendMessage chartType
             cardVideo systemInstruction w0 history newMessage executeFn))"
  shows "fst (chatWithJsonTools startChat sendMessage chartType cardVideo
             systemInstruction w0 history newMessage executeFn) = Inl e \<and>
         last (snd (chatWithJsonTools startChat sendMessage chartType cardVideo
             systemInstruction w0 history newMessage executeFn)) = ExecuteFn name args (Inl e)"
proof -
  obtain out w where s: "sendMessage (startChat w0 (chatHistory systemInstruction history))
                           (Message newMessage) = (out, w)"
    by (cases "sendMessage (startChat w0 (chatHistory systemInstruction history)) (Message newMessage)")
  show ?thesis
  proof (cases out)
    case (Inl x)
    then show ?thesis using assms s by (simp add: chatWithJsonTools_def)
  next
    case (Inr resp)
    let ?st = "\<lparr>response = resp, world = w, charts = [], videoCards = [], toolCalls = [],
                trace = [SendMessage (Message newMessage)]\<rparr>"
    have "noThrowSoFar (trace ?st)" by (simp add: noThrowSoFar_def)
    from jsonToolLoop_throw_inv [OF this, of sendMessage executeFn chartType cardVideo 0]
    show ?thesis using assms
      by (auto simp: chatWithJsonTools_def s Inr throwIsLast_def
               split: sum.splits prod.splits dest: noThrowSoFar_threw)
  qed
qed

lemma chatWithCsvTools_throw:
  assumes "ExecuteFn name args (Inl e) \<in> set (snd (chatWithCsvTools startChat sendMessage chartType
             systemInstruction w0 history newMessage csvHeaders executeFn))"
  shows "fst (chatWithCsvTools startChat sendMessage chartType
             systemInstruction w0 history newMessage csvHeaders executeFn) = Inl e \<and>
         last (snd (chatWithCsvTools startChat sendMessage chartType
             systemInstruction w0 history newMessage csvHeaders executeFn)) = ExecuteFn name args (Inl e)"
proof -
  obtain out w where s: "sendMessage (startChat w0 (chatHistory systemInstruction history))
                           (Message (msgWithContext csvHeaders newMessage)) = (out, w)"
    by (cases "sendMessage (startChat w0 (chatHistory systemInstruction history))
                 (Message (msgWithContext csvHeaders newMessage))")
  show ?thesis
  proof (cases out)
    case (Inl x)
    then show ?thesis using assms s by (simp add: chatWithCsvTools_def)
  next
    case (Inr resp)
    let ?st = "\<lparr>response = resp, world = w, charts = [], videoCards = [], toolCalls = [],
                trace = [SendMessage (Message (msgWithContext csvHeaders newMessage))]\<rparr>"
    have "noThrowSoFar (trace ?st)" by (simp add: noThrowSoFar_def)
    from jsonToolLoop_throw_inv [OF this, of sendMessage executeFn chartType "\<lambda>r. False" 0]
    show ?thesis using assms
      by (auto simp: chatWithCsvTools_def csvToolLoop_eq_json s Inr throwIsLast_def
               split: sum.splits prod.splits dest: noThrowSoFar_threw)
  qed
qed

text \<open>
  Claim C2, as stated, fails: with an executor that throws, the exception is the outcome
  of the whole call, and no function response is sent to the model after the throwing
  invocation.
\<close>

theorem executeFn_exception_not_caught:
  "chatWithJsonTools (\<lambda>w h. w) greedyModel (\<lambda>r. False) (\<lambda>r. False)
      ''persona'' 0 [] ''play the first'' failingExecutor
     = (Inl (Exn ''TypeError''),
        [SendMessage (Message ''play the first''),
         ExecuteFn ''play_video'' () (Inl (Exn ''TypeError''))]) \<and>
   chatWithCsvTools (\<lambda>w h. w) greedyModel (\<lambda>r. False)
      ''persona'' 0 [] ''plot likes'' [''likes''] failingExecutor
     = (Inl (Exn ''TypeError''),
        [SendMessage (Message (''[CSV columns: likes]'' @ [CHR 0x0A, CHR 0x0A] @ ''plot likes'')),
         ExecuteFn ''play_video'' () (Inl (Exn ''TypeError''))])"
  by (simp add: chatWithJsonTools_def chatWithCsvTools_def greedyModel_def failingExecutor_def
        jsonToolLoop.simps csvToolLoop.simps msgWithContext_def Let_def)

text \<open>
  Claim C2, amended. If an invocation \<open>executeFn(name, args)\<close> made during the loop throws
  \<open>e\<close>, the orchestrator does not catch it: \<open>chatWithJsonTools\<close> and \<open>chatWithCsvTools\<close>
  fail with \<open>e\<close>, and that invocation is the last call they make, so nothing is sent back
  to the model for it. Only a result that the executor returns reaches the model.
\<close>

theorem executeFn_exception_escapes:
  "(ExecuteFn name args (Inl e) \<in> set (snd (chatWithJsonTools startChat sendMessage chartType
        cardVideo systemInstruction w0 history newMessage executeFn)) \<longrightarrow>
      fst (chatWithJsonTools startChat sendMessage chartType cardVideo
             systemInstruction w0 history newMessage executeFn) = Inl e \<and>
      last (snd (chatWithJsonTools startChat sendMessage chartType cardVideo
             systemInstruction w0 history newMessage executeFn)) = ExecuteFn name args (Inl e)) \<and>
   (ExecuteFn name args (Inl e) \<in> set (snd (chatWithCsvTools startChat sendMessage chartType
        systemInstruction w0 history newMessage csvHeaders executeFn)) \<longrightarrow>
      fst (chatWithCsvTools startChat sendMessage chartType
             systemInstruction w0 history newMessage csvHeaders executeFn) = Inl e \<and>
      last (snd (chatWithCsvTools startChat sendMessage chartType
             systemInstruction w0 history newMessage csvHeaders executeFn)) = ExecuteFn name args (Inl e))"
  using chatWithJsonTools_throw [of name args e startChat sendMessage chartType cardVideo
          systemInstruction w0 history newMessage executeFn]
        chatWithCsvTools_throw [of name args e startChat sendMessage chartType
          systemInstruction w0 history newMessage csvHeaders executeFn]
  by blast

theorem executeFn_exception_escapes_witness:
  "ExecuteFn ''play_video'' () (Inl (Exn ''TypeError''))
     \<in> set (snd (chatWithJsonTools (\<lambda>w h. w) greedyModel (\<lambda>r. False)
        (\<lambda>r. False) ''persona'' 0 [] ''play it'' failingExecutor)) \<and>
   ExecuteFn ''play_video'' () (Inl (Exn ''TypeError''))
     \<in> set (snd (chatWithCsvTools (\<lambda>w h. w) greedyModel (\<lambda>r. False)
        ''persona'' 0 [] ''play it'' [] failingExecutor)) \<and>
   fst (chatWithJsonTools (\<lambda>w h. w) greedyModel (\<lambda>r. False)
        (\<lambda>r. False) ''persona'' 0 [] ''play it'' failingExecutor) = Inl (Exn ''TypeError'') \<and>
   fst (chatWithCsvTools (\<lambda>w h. w) greedyModel (\<lambda>r. False)
        ''persona'' 0 [] ''play it'' [] failingExecutor) = Inl (Exn ''TypeError'')"
proof -
  have j: "ExecuteFn ''play_video'' () (Inl (Exn ''TypeError''))
     \<in> set (snd (chatWithJsonTools (\<lambda>w h. w) greedyModel
        (\<lambda>r. False) (\<lambda>r. False) ''persona'' 0 [] ''play it'' failingExecutor))"
    by (simp add: chatWithJsonTools_def greedyModel_def failingExecutor_def
          jsonToolLoop.simps Let_def)
  have c: "ExecuteFn ''play_video'' () (Inl (Exn ''TypeError''))
     \<in> set (snd (chatWithCsvTools (\<lambda>w h. w) greedyModel
        (\<lambda>r. False) ''persona'' 0 [] ''play it'' [] failingExecutor))"
    by (simp add: chatWithCsvTools_def greedyModel_def failingExecutor_def
          csvToolLoop.simps msgWithContext_def Let_def)
  from executeFn_exception_escapes [of "''play_video''" "()" "Exn ''TypeError''" "\<lambda>w h. w"
      greedyModel "\<lambda>r. False" "\<lambda>r. False" "''persona''" 0 "[]" "''play it''" failingExecutor "[]"] j c
  show ?thesis by simp
qed

text \<open>
  Claim C8. With a non-empty system instruction the adapter's output is one user turn
  whose text ends with the instruction, then one model acknowledgment turn, then the
  mapped history; with an empty instruction it is the mapped history alone. The mapped
  history has one turn per input turn, in order: a \<open>user\<close> or \<open>model\<close> role is kept (any
  other role becomes \<open>model\<close>) and the text is the turn's content (empty when absent).
\<close>

theorem chatHistory_prepends_instruction_pair:
  "(systemInstruction \<noteq> [] \<longrightarrow>
      chatHistory systemInstruction history =
        instructionTurn systemInstruction # ackTurn # baseHistory history \<and>
      turn_role (instructionTurn systemInstruction) = ''user'' \<and>
      (\<exists>pre. turn_text (instructionTurn systemInstruction) = pre @ systemInstruction) \<and>
      turn_role ackTurn = ''model'') \<and>
   (systemInstruction = [] \<longrightarrow> chatHistory systemInstruction history = baseHistory history) \<and>
   length (baseHistory history) = length history \<and>
   (\<forall>i < length history.
      (role (history ! i) \<in> {''user'', ''model''} \<longrightarrow>
         turn_role (baseHistory history ! i) = role (history ! i)) \<and>
      (role (history ! i) \<noteq> ''user'' \<longrightarrow> turn_role (baseHistory history ! i) = ''model'') \<and>
      (\<forall>c. content (history ! i) = Some c \<longrightarrow> turn_text (baseHistory history ! i) = c) \<and>
      (content (history ! i) = None \<longrightarrow> turn_text (baseHistory history ! i) = []))"
  by (auto simp: chatHistory_def baseHistory_def instructionTurn_def ackTurn_def toTurn_def)

theorem chatHistory_prepends_instruction_pair_witness:
  "chatHistory ''Be brief.'' [\<lparr>role = ''user'', content = Some ''hi''\<rparr>,
                              \<lparr>role = ''model'', content = Some ''hello''\<rparr>]
     = [\<lparr>turn_role = ''user'',
         turn_text = ''Follow these instructions in every response:'' @ [CHR 0x0A, CHR 0x0A]
                     @ ''Be brief.''\<rparr>,
        \<lparr>turn_role = ''model'', turn_text = ''Got it! I'll follow those instructions.''\<rparr>,
        \<lparr>turn_role = ''user'', turn_text = ''hi''\<rparr>,
        \<lparr>turn_role = ''model'', turn_text = ''hello''\<rparr>] \<and>
   chatHistory [] [\<lparr>role = ''user'', content = Some ''hi''\<rparr>,
                   \<lparr>role = ''model'', content = None\<rparr>]
     = [\<lparr>turn_role = ''user'', turn_text = ''hi''\<rparr>, \<lparr>turn_role = ''model'', turn_text = []\<rparr>]"
proof -
  have a: "''Be brief.'' \<noteq> []" by simp
  have b: "(0::nat) < length [\<lparr>role = ''user'', content = Some ''hi''\<rparr>,
                              \<lparr>role = ''model'', content = Some ''hello''\<rparr>]" by simp
  from chatHistory_prepends_instruction_pair [of "''Be brief.''"
         "[\<lparr>role = ''user'', content = Some ''hi''\<rparr>, \<lparr>role = ''model'', content = Some ''hello''\<rparr>]"]
       chatHistory_prepends_instruction_pair [of "[]"
         "[\<lparr>role = ''user'', content = Some ''hi''\<rparr>, \<lparr>role = ''model'', content = None\<rparr>]"] a b
  show ?thesis
    by (simp add: baseHistory_def instructionTurn_def ackTurn_def toTurn_def)
qed


section \<open>Properties of the executors\<close>

subsection \<open>The store\<close>

lemma newArray_videos [simp]: "st_videos (snd (newArray xs s)) = st_videos s"
  by (simp add: newArray_def)

lemma sortInPlace_Local_videos [simp]: "st_videos (sortInPlace cmp (Local i) s) = st_videos s"
  by simp

lemma newArray_ref [simp]: "fst (newArray xs s) = Local (length (st_locals s))"
  by (simp add: newArray_def)

lemma newArray_read_new [simp]: "read (Local (length (st_locals s))) (snd (newArray xs s)) = xs"
  by (simp add: newArray_def)

lemma newArray_length [simp]: "length (st_locals (snd (newArray xs s))) = Suc (length (st_locals s))"
  by (simp add: newArray_def)

lemma newArray_read_Videos [simp]: "read Videos (snd (newArray xs s)) = st_videos s"
  by (simp add: newArray_def)

lemma sortInPlace_read_same [simp]:
  "i < length (st_locals s) \<Longrightarrow>
   read (Local i) (sortInPlace cmp (Local i) s) = js_sort cmp (read (Local i) s)"
  by simp

lemma criteriaFound_videos [simp]: "st_videos (snd (criteriaFound h query s)) = st_videos s"
  by (simp add: criteriaFound_def split_beta Let_def split: option.split)

lemma plot_metric_vs_time_videos [simp]:
  "st_videos (snd (plot_metric_vs_time h args s)) = st_videos s"
  by (simp add: plot_metric_vs_time_def split_beta Let_def)

lemma play_video_videos [simp]: "st_videos (snd (play_video h args s)) = st_videos s"
  by (simp add: play_video_def split_beta Let_def split: sum.split option.split)

text \<open>
  Claim C9. For every tool name (the four tools and any other name), arguments and
  store, the array of videos after a call of \<open>executeJsonTool\<close> is the array before it,
  element for element and in order, also when the call throws: every \<open>sort\<close> of the
  executor is applied to an array that the executor has allocated itself.
\<close>

theorem executeJsonTool_leaves_videos_unchanged:
  "st_videos (snd (executeJsonTool_st h toolName args s)) = st_videos s"
  by (simp add: executeJsonTool_st_def split_beta)

subsection \<open>Doubles\<close>



lemma binary64_0 [simp]: "binary64 0 = Finite 0"
  by (simp add: binary64_def)













subsection \<open>Statistics\<close>





lemma le_PosInfinity [simp]: "a \<le> PosInfinity"
  by (cases a) simp_all

lemma NegInfinity_le [simp]: "NegInfinity \<le> a"
  by simp



lemma startsWith_append: "startsWith (t @ r) t"
  by (induction t) simp_all

lemma startsWith_append_left: "startsWith a t \<Longrightarrow> startsWith (a @ b) t"
  by (induction a t rule: startsWith.induct) simp_all

lemma str_includes_Nil [simp]: "str_includes s []"
  by (cases s) simp_all

lemma str_includes_startsWith: "startsWith s t \<Longrightarrow> str_includes s t"
  by (cases s; cases t) simp_all

lemma str_includes_append_right: "str_includes b t \<Longrightarrow> str_includes (a @ b) t"
proof (induction a)
  case Nil
  then show ?case by simp
next
  case (Cons c a)
  then show ?case by simp
qed

lemma str_includes_append_left: "str_includes a t \<Longrightarrow> str_includes (a @ b) t"
proof (induction a)
  case Nil
  then show ?case by simp
next
  case (Cons c a)
  then show ?case using startsWith_append_left [of "c # a" t b] by auto
qed

lemma str_includes_self: "str_includes t t"
  using startsWith_append [of t "[]"] by (simp add: str_includes_startsWith)

lemma str_includes_join: "k \<in> set ks \<Longrightarrow> str_includes (join sep ks) k"
proof (induction sep ks rule: join.induct)
  case (1 sep)
  then show ?case by simp
next
  case (2 sep x)
  then show ?case by (simp add: str_includes_self)
next
  case (3 sep x y ys)
  show ?case
  proof (cases "k = x")
    case True
    then show ?thesis
      using str_includes_append_left [OF str_includes_self, of x "sep @ join sep (y # ys)"]
      by simp
  next
    case False
    with 3 have "str_includes (join sep (y # ys)) k" by simp
    then have "str_includes ((x @ sep) @ join sep (y # ys)) k"
      by (rule str_includes_append_right)
    then show ?thesis by simp
  qed
qed

lemma compute_stats_json_call:
  "executeJsonTool h ''compute_stats_json'' args videos = compute_stats_json h args videos"
  by (simp add: executeJsonTool_def executeJsonTool_st_def callStore_def)

text \<open>
  With more coercible values than a call takes arguments the executor throws: the
  exception of \<open>Math.min(...vals)\<close> leaves it.
\<close>

lemma compute_stats_json_too_many_values:
  assumes "argumentsLimit h < length (numericValues h videos (str_of (a_field args)))"
  shows "executeJsonTool h ''compute_stats_json'' args videos = Inl (Exn ''RangeError'')"
proof -
  from assms have "numericValues h videos (str_of (a_field args)) \<noteq> []" by auto
  with assms show ?thesis
    by (simp add: compute_stats_json_call compute_stats_json_def Let_def Math_min_def)
qed

text \<open>
  Claim C4, amended. When no value of the field converts to a number,
  \<open>compute_stats_json\<close> does not throw: it returns an error whose message names the field
  asked for and ends with the keys of the first video, joined by commas (no key for an
  empty dataset), so that each key of the first video occurs in the message. The message
  is made of the first video alone, whatever fields the other videos have.
\<close>

theorem compute_stats_json_error_when_no_numeric_value:
  assumes "numericValues h videos (str_of (a_field args)) = []"
  shows "\<exists>msg. executeJsonTool h ''compute_stats_json'' args videos = Inr (ErrorResult msg) \<and>
           msg = ''No numeric values found for field \"'' @ str_of (a_field args)
                 @ ''\". Available fields: '' @ join '', '' (firstKeys videos) \<and>
           list_all (str_includes msg) (firstKeys videos)"
proof -
  let ?pre = "''No numeric values found for field \"'' @ str_of (a_field args)
               @ ''\". Available fields: ''"
  have "list_all (str_includes (?pre @ join '', '' (firstKeys videos))) (firstKeys videos)"
    unfolding list_all_iff
    using str_includes_append_right [OF str_includes_join, of _ "firstKeys videos" ?pre "'', ''"]
    by blast
  with assms show ?thesis
    by (simp add: compute_stats_json_call compute_stats_json_def firstKeys_def Let_def)
qed

theorem compute_stats_json_error_when_no_numeric_value_witness:
  "numericValues sampleHost [ [(''title'', JStr ''A''), (''view_count'', JNull)], [(''title'', JStr ''B'')]]
     ''view_count'' = [] \<and>
   executeJsonTool sampleHost ''compute_stats_json'' (noArgs\<lparr>a_field := Some ''view_count''\<rparr>)
     [ [(''title'', JStr ''A''), (''view_count'', JNull)], [(''title'', JStr ''B'')]]
     = Inr (ErrorResult
        ''No numeric values found for field \"view_count\". Available fields: title, view_count'')"
proof -
  have h: "numericValues sampleHost
             [ [(''title'', JStr ''A''), (''view_count'', JNull)], [(''title'', JStr ''B'')]]
             (str_of (a_field (noArgs\<lparr>a_field := Some ''view_count''\<rparr>))) = []"
    by (simp add: numericValues_def List.map_filter_simps getProp_def str_of_def noArgs_def
          sampleHost_def inheritedNames_def)
  from compute_stats_json_error_when_no_numeric_value [OF h] h
  show ?thesis
    by (simp add: firstKeys_def Object_keys_def str_of_def noArgs_def)
qed

text \<open>
  Claim C4, as stated, fails: the message does not name the available fields of the
  dataset. The second video has the field \<open>like_count\<close>, the first one has not, and the
  message for the field \<open>view_count\<close>, which no video has, lists \<open>title\<close> alone.
\<close>

theorem compute_stats_json_error_omits_later_fields:
  "executeJsonTool sampleHost ''compute_stats_json'' (noArgs\<lparr>a_field := Some ''view_count''\<rparr>)
     [ [(''title'', JStr ''A'')], [(''title'', JStr ''B''), (''like_count'', JNum 5)]]
     = Inr (ErrorResult ''No numeric values found for field \"view_count\". Available fields: title'') \<and>
   \<not> str_includes ''No numeric values found for field \"view_count\". Available fields: title''
         ''like_count''"
proof -
  have "\<not> str_includes ''No numeric values found for field \"view_count\". Available fields: title''
             ''like_count''"
    by code_simp
  then show ?thesis
    by (simp add: compute_stats_json_call compute_stats_json_def numericValues_def
          List.map_filter_simps getProp_def str_of_def noArgs_def inheritedNames_def Let_def
          Object_keys_def)
qed






subsection \<open>Sorting\<close>

lemma set_insertCmp [simp]: "set (insertCmp cmp x ys) = insert x (set ys)"
  by (induction ys) auto

lemma mset_insertCmp [simp]: "mset (insertCmp cmp x ys) = add_mset x (mset ys)"
  by (induction ys) auto

lemma mset_js_sort [simp]: "mset (js_sort cmp xs) = mset xs"
  by (induction xs) (simp_all add: js_sort_def)

lemma set_js_sort [simp]: "set (js_sort cmp xs) = set xs"
  by (induction xs) (simp_all add: js_sort_def)

lemma length_js_sort [simp]: "length (js_sort cmp xs) = length xs"
  using mset_js_sort [of cmp xs] by (metis size_mset)

lemma js_sort_Nil_iff [simp]: "js_sort cmp xs = [] \<longleftrightarrow> xs = []"
  using length_js_sort [of cmp xs] by (metis length_0_conv)

lemma insertCmp_insort_key:
  fixes key :: "'a \<Rightarrow> real"
  assumes "\<And>b. b \<in> set ys \<Longrightarrow> cmp x b = Some (key x - key b)"
  shows "insertCmp cmp x ys = insort_key key x ys"
  using assms by (induction ys) (simp_all add: sortCompare_def)

lemma js_sort_sort_key:
  fixes key :: "'a \<Rightarrow> real"
  assumes "\<And>a b. a \<in> set xs \<Longrightarrow> b \<in> set xs \<Longrightarrow> cmp a b = Some (key a - key b)"
  shows "js_sort cmp xs = sort_key key xs"
  using assms
proof (induction xs)
  case Nil
  then show ?case by (simp add: js_sort_def)
next
  case (Cons x xs)
  have tl: "js_sort cmp xs = sort_key key xs" using Cons by simp
  have "insertCmp cmp x (sort_key key xs) = insort_key key x (sort_key key xs)"
    by (rule insertCmp_insort_key) (simp add: Cons.prems)
  then show ?case using tl by (simp add: js_sort_def)
qed

lemma find_filter: "find P xs = (case filter P xs of [] \<Rightarrow> None | x # ys \<Rightarrow> Some x)"
  by (induction xs) simp_all

lemma find_sort_key_first:
  fixes key :: "'a \<Rightarrow> real"
  assumes "xs \<noteq> []"
  shows "find (\<lambda>y. key y = key (hd (sort_key key xs))) xs = Some (hd (sort_key key xs))"
proof -
  let ?ys = "sort_key key xs"
  let ?P = "\<lambda>y. key y = key (hd ?ys)"
  have ne: "?ys \<noteq> []" using assms by (metis length_0_conv length_sort)
  then obtain z zs where ys: "?ys = z # zs" by (cases ?ys) auto
  have "filter ?P xs = filter ?P ?ys" by (simp add: sort_key_stable)
  also have "\<dots> = z # filter ?P zs" using ys by simp
  finally show ?thesis using ys by (simp add: find_filter)
qed

lemma hd_sort_key_least:
  fixes key :: "'a \<Rightarrow> real"
  assumes "x \<in> set xs"
  shows "key (hd (sort_key key xs)) \<le> key x"
proof -
  let ?ys = "sort_key key xs"
  have "x \<in> set ?ys" using assms by simp
  then obtain z zs where ys: "?ys = z # zs" by (cases ?ys) auto
  have "sorted (map key ?ys)" by simp
  then have "\<forall>y \<in> set zs. key z \<le> key y" using ys by (simp del: sorted_sort_key)
  with \<open>x \<in> set ?ys\<close> ys show ?thesis by auto
qed

subsection \<open>What \<open>play_video\<close> returns\<close>

lemma criteriaFound_result:
  "fst (criteriaFound h query s) = criteriaPick h query (st_videos s)"
  by (simp add: criteriaFound_def criteriaPick_def newArray_def Let_def split: option.split)

lemma play_video_result:
  "st_videos s \<noteq> [] \<Longrightarrow>
   fst (play_video h args s)
     = afterOrdinal h args (st_videos s) (ordinalFound (normalize (a_query args)) (st_videos s))"
  by (simp add: play_video_def afterOrdinal_def Let_def split_beta criteriaFound_result
        split: option.split sum.split)

lemma play_video_call:
  "videos \<noteq> [] \<Longrightarrow>
   executeJsonTool h ''play_video'' args videos
     = afterOrdinal h args videos (ordinalFound (normalize (a_query args)) videos)"
  using play_video_result [of "callStore videos" h args]
  by (simp add: executeJsonTool_def executeJsonTool_st_def callStore_def)

lemma ordMatch_inherited: "query \<in> set inheritedNames \<Longrightarrow> ordMatch query = None"
  by (auto simp: inheritedNames_def isDigit_def)

lemma ordinalFound_not_word:
  "map_of ordinals query = None \<Longrightarrow> ordinalFound query videos = numeralFound query videos"
  by (simp add: ordinalFound_def numeralFound_def ordMatch_inherited)

lemma ordinalFound_word:
  "map_of ordinals query = Some i \<Longrightarrow> ordinalFound query videos = elemAt videos i"
  by (simp add: ordinalFound_def)

lemma descBy_countOf:
  "countOf h f a = Some x \<Longrightarrow> countOf h f b = Some y \<Longrightarrow> descBy h f a b = Some (y - x)"
  by (simp add: descBy_def countOf_def numDiff_def)

lemma elemAt_0: "xs \<noteq> [] \<Longrightarrow> elemAt xs 0 = Some (hd xs)"
  by (cases xs) (simp_all add: elemAt_def)

lemma normalize_first_eval: "map_of ordinals ''first'' = Some 0"
  by (simp add: ordinals_def)

lemma most_viewed_eval:
  "map_of ordinals ''most viewed'' = None" "ordMatch ''most viewed'' = None"
  "testWords ''most'' ''view'' ''most viewed''"
  by code_simp+

lemma criteriaCmp_most_viewed: "criteriaCmp h ''most viewed'' = Some (descBy h ''view_count'')"
  by (simp add: criteriaCmp_def isSpace_def)

lemma play_video_most_viewed:
  assumes ne: "videos \<noteq> []"
      and q: "normalize (a_query args) = ''most viewed''"
      and num: "list_all (\<lambda>v. countOf h ''view_count'' v \<noteq> None) videos"
  shows "\<exists>v m. find (\<lambda>w. countOf h ''view_count'' w = Some m) videos = Some v \<and>
           list_all (\<lambda>w. \<exists>c. countOf h ''view_count'' w = Some c \<and> c \<le> m) videos \<and>
           executeJsonTool h ''play_video'' args videos = Inr (CardResult (toCard h v))"
proof -
  let ?c = "countOf h ''view_count''"
  define key where "key v = - the (?c v)" for v
  have some: "?c v = Some (- key v)" if "v \<in> set videos" for v
    using num that by (auto simp: list_all_iff key_def)
  have cmp: "descBy h ''view_count'' a b = Some (key a - key b)"
    if "a \<in> set videos" "b \<in> set videos" for a b
    using descBy_countOf [OF some [OF that(1)] some [OF that(2)]] by simp
  let ?v = "hd (sort_key key videos)"
  have sorted_eq: "js_sort (descBy h ''view_count'') videos = sort_key key videos"
    by (rule js_sort_sort_key) (rule cmp)
  have "sort_key key videos \<noteq> []"
    using ne by (metis length_0_conv length_sort)
  then have pick: "criteriaPick h ''most viewed'' videos = Some ?v"
    by (simp add: criteriaPick_def criteriaCmp_most_viewed sorted_eq elemAt_0)
  have "ordinalFound ''most viewed'' videos = None"
    unfolding ordinalFound_not_word [OF most_viewed_eval(1)] numeralFound_def most_viewed_eval(2)
    by simp
  then have res: "executeJsonTool h ''play_video'' args videos = Inr (CardResult (toCard h ?v))"
    using ne q pick by (simp add: play_video_call afterOrdinal_def)
  have "find (\<lambda>w. ?c w = Some (- key ?v)) videos = find (\<lambda>w. key w = key ?v) videos"
    by (rule find_cong) (auto simp: some)
  then have first: "find (\<lambda>w. ?c w = Some (- key ?v)) videos = Some ?v"
    using find_sort_key_first [OF ne, of key] by simp
  have "list_all (\<lambda>w. \<exists>c. ?c w = Some c \<and> c \<le> - key ?v) videos"
    unfolding list_all_iff using some hd_sort_key_least [of _ videos key] by auto
  with first res show ?thesis by blast
qed

text \<open>
  Claim C7, amended. On a non-empty array, a query that is \<open>first\<close> (after lower-casing
  and trimming) returns the card of the first video of the array as given. A query that
  is \<open>most viewed\<close> returns the card of the earliest video, in the given order, whose
  view count is the greatest, provided that the view count of every video converts to
  a number (a missing or falsy count reads as 0).
\<close>

theorem play_video_first_and_most_viewed:
  assumes "videos \<noteq> []"
  shows "(normalize (a_query args) = ''first'' \<longrightarrow>
            executeJsonTool h ''play_video'' args videos = Inr (CardResult (toCard h (hd videos)))) \<and>
         (normalize (a_query args) = ''most viewed'' \<and>
          list_all (\<lambda>v. countOf h ''view_count'' v \<noteq> None) videos \<longrightarrow>
            (\<exists>v m. find (\<lambda>w. countOf h ''view_count'' w = Some m) videos = Some v \<and>
               list_all (\<lambda>w. \<exists>c. countOf h ''view_count'' w = Some c \<and> c \<le> m) videos \<and>
               executeJsonTool h ''play_video'' args videos = Inr (CardResult (toCard h v))))"
proof -
  have "executeJsonTool h ''play_video'' args videos = Inr (CardResult (toCard h (hd videos)))"
    if "normalize (a_query args) = ''first''"
    using assms that
    by (simp add: play_video_call ordinalFound_word [OF normalize_first_eval] elemAt_0
          afterOrdinal_def)
  then show ?thesis using play_video_most_viewed [OF assms] by blast
qed

lemma normalize_evals:
  "normalize (Some ''first'') = ''first''"
  "normalize (Some ''Most Viewed'') = ''most viewed''"
  "normalize (Some ''most viewed'') = ''most viewed''"
  "normalize (Some ''play the 5th'') = ''play the 5th''"
  "normalize (Some ''play the first video'') = ''play the first video''"
  by code_simp+

theorem play_video_first_and_most_viewed_witness:
  "sampleVideos \<noteq> [] \<and>
   executeJsonTool sampleHost ''play_video'' (noArgs\<lparr>a_query := Some ''first''\<rparr>) sampleVideos
     = Inr (CardResult (toCard sampleHost [(''title'', JStr ''A''), (''view_count'', JNum 100)])) \<and>
   executeJsonTool sampleHost ''play_video'' (noArgs\<lparr>a_query := Some ''Most Viewed''\<rparr>) sampleVideos
     = Inr (CardResult (toCard sampleHost [(''title'', JStr ''B''), (''view_count'', JNum 300)]))"
proof -
  have ne: "sampleVideos \<noteq> []" by (simp add: sampleVideos_def)
  have q1: "normalize (a_query (noArgs\<lparr>a_query := Some ''first''\<rparr>)) = ''first''"
    by (simp add: noArgs_def normalize_evals)
  have q2: "normalize (a_query (noArgs\<lparr>a_query := Some ''Most Viewed''\<rparr>)) = ''most viewed''"
    by (simp add: noArgs_def normalize_evals)
  have num: "list_all (\<lambda>v. countOf sampleHost ''view_count'' v \<noteq> None) sampleVideos"
    by (simp add: sampleVideos_def countOf_def getProp_def orZero_def)
  have c: "countOf sampleHost ''view_count'' [(''title'', JStr ''A''), (''view_count'', JNum 100)] = Some 100"
          "countOf sampleHost ''view_count'' [(''title'', JStr ''B''), (''view_count'', JNum 300)] = Some 300"
          "countOf sampleHost ''view_count'' [(''title'', JStr ''C''), (''view_count'', JNum 300)] = Some 300"
    by (simp_all add: countOf_def getProp_def orZero_def)
  from play_video_first_and_most_viewed [OF ne, of "noArgs\<lparr>a_query := Some ''first''\<rparr>" sampleHost] q1
  have first: "executeJsonTool sampleHost ''play_video'' (noArgs\<lparr>a_query := Some ''first''\<rparr>) sampleVideos
     = Inr (CardResult (toCard sampleHost [(''title'', JStr ''A''), (''view_count'', JNum 100)]))"
    by (simp add: sampleVideos_def)
  from play_video_first_and_most_viewed [OF ne, of "noArgs\<lparr>a_query := Some ''Most Viewed''\<rparr>" sampleHost]
       q2 num
  obtain v m where
    f: "find (\<lambda>w. countOf sampleHost ''view_count'' w = Some m) sampleVideos = Some v" and
    a: "list_all (\<lambda>w. \<exists>c. countOf sampleHost ''view_count'' w = Some c \<and> c \<le> m) sampleVideos" and
    r: "executeJsonTool sampleHost ''play_video'' (noArgs\<lparr>a_query := Some ''Most Viewed''\<rparr>)
          sampleVideos = Inr (CardResult (toCard sampleHost v))"
    by blast
  from a have "300 \<le> m" by (simp add: sampleVideos_def c)
  with f have "v = [(''title'', JStr ''B''), (''view_count'', JNum 300)]"
    by (simp add: sampleVideos_def c split: if_splits)
  with r ne first show ?thesis by simp
qed

lemma ordinalFound_most_viewed: "ordinalFound ''most viewed'' videos = None"
  unfolding ordinalFound_not_word [OF most_viewed_eval(1)] numeralFound_def most_viewed_eval(2)
  by simp

text \<open>
  Claim C7, as stated, fails where a view count is not a number: a comparison with it
  is \<open>NaN\<close>, which \<open>sort\<close> reads as equal. With the counts \<open>'n/a'\<close> and 5 the array
  keeps its order and the video without a count is returned; with 1, \<open>'n/a'\<close> and 5 the
  video with the count 1 is returned.
\<close>

theorem play_video_most_viewed_with_text_count:
  "executeJsonTool sampleHost ''play_video'' (noArgs\<lparr>a_query := Some ''most viewed''\<rparr>)
     [ [(''title'', JStr ''A''), (''view_count'', JStr ''n/a'')],
      [(''title'', JStr ''B''), (''view_count'', JNum 5)]]
     = Inr (CardResult (toCard sampleHost [(''title'', JStr ''A''), (''view_count'', JStr ''n/a'')])) \<and>
   executeJsonTool sampleHost ''play_video'' (noArgs\<lparr>a_query := Some ''most viewed''\<rparr>)
     [ [(''title'', JStr ''A''), (''view_count'', JNum 1)],
      [(''title'', JStr ''B''), (''view_count'', JStr ''n/a'')],
      [(''title'', JStr ''C''), (''view_count'', JNum 5)]]
     = Inr (CardResult (toCard sampleHost [(''title'', JStr ''A''), (''view_count'', JNum 1)]))"
  by (simp add: play_video_call noArgs_def normalize_evals ordinalFound_most_viewed
        afterOrdinal_def criteriaPick_def criteriaCmp_most_viewed js_sort_def sortCompare_def
        descBy_def numDiff_def orZero_def getProp_def sampleHost_def elemAt_def)

subsection \<open>Ordinals\<close>

lemma ordinals_keys:
  "map fst ordinals = [''first'', ''second'', ''third'', ''fourth'', ''fifth'', ''sixth'',
                       ''seventh'', ''eighth'', ''ninth'', ''tenth'']"
  by (simp add: ordinals_def)

lemma ordinals_distinct: "distinct (map fst ordinals)"
  by (simp add: ordinals_def)

text \<open>
  Claim C10. On a non-empty array, when the query (lower-cased, and trimmed of the white
  space at its ends) is not one of the ten words \<open>first\<close> ... \<open>tenth\<close>, the result of
  \<open>play_video\<close> is what the numeral-suffix branch, then the criteria, then the title
  match give; the spelled-out branch decides the video only for a query that is one of
  the ten words, from its index.
\<close>

theorem spelled_ordinal_needs_whole_query:
  assumes "videos \<noteq> []"
  shows "(normalize (a_query args) \<notin> set (map fst ordinals) \<longrightarrow>
            executeJsonTool h ''play_video'' args videos
              = afterOrdinal h args videos (numeralFound (normalize (a_query args)) videos)) \<and>
         (\<forall>i. (normalize (a_query args), i) \<in> set ordinals \<longrightarrow>
            executeJsonTool h ''play_video'' args videos
              = afterOrdinal h args videos (elemAt videos i)) \<and>
         map fst ordinals = [''first'', ''second'', ''third'', ''fourth'', ''fifth'', ''sixth'',
                             ''seventh'', ''eighth'', ''ninth'', ''tenth'']"
proof -
  let ?q = "normalize (a_query args)"
  have a: "executeJsonTool h ''play_video'' args videos
             = afterOrdinal h args videos (numeralFound ?q videos)"
    if "?q \<notin> set (map fst ordinals)"
  proof -
    from that have "map_of ordinals ?q = None" by (simp add: map_of_eq_None_iff)
    then show ?thesis using assms by (simp add: play_video_call ordinalFound_not_word)
  qed
  have b: "executeJsonTool h ''play_video'' args videos = afterOrdinal h args videos (elemAt videos i)"
    if "(?q, i) \<in> set ordinals" for i
  proof -
    from that have "map_of ordinals ?q = Some i"
      using ordinals_distinct by (intro map_of_is_SomeI)
    then show ?thesis using assms by (simp add: play_video_call ordinalFound_word)
  qed
  from a b ordinals_keys show ?thesis by blast
qed

lemma first_video_evals:
  "numeralFound ''play the first video'' twoVideos = None"
  "criteriaCmp h ''play the first video'' = None"
  "titleFound ''play the first video'' twoVideos
     = Inr (Some [(''title'', JStr ''My first video''), (''video_id'', JStr ''b2'')])"
  "''play the first video'' \<notin> set (map fst ordinals)"
  by code_simp+

lemma padded_query_evals:
  "normalize (Some ''  Play the FIRST video '') = ''play the first video''"
  "normalize (Some [CHR 0xA0, CHR ''F'', CHR ''i'', CHR ''r'', CHR ''s'', CHR ''t'', CHR 0x09, CHR '' ''])
     = ''first''"
  by code_simp+

text \<open>
  \<open>Play the FIRST video\<close>, with blanks around it, is resolved by the title match, not as
  the first video; \<open>First\<close> between a no-break space and a tab is the first video.
\<close>

theorem spelled_ordinal_needs_whole_query_witness:
  "twoVideos \<noteq> [] \<and>
   normalize (a_query (noArgs\<lparr>a_query := Some ''  Play the FIRST video ''\<rparr>))
     = ''play the first video'' \<and>
   normalize (a_query (noArgs\<lparr>a_query := Some ''  Play the FIRST video ''\<rparr>))
     \<notin> set (map fst ordinals) \<and>
   (normalize (a_query (noArgs\<lparr>a_query :=
       Some [CHR 0xA0, CHR ''F'', CHR ''i'', CHR ''r'', CHR ''s'', CHR ''t'', CHR 0x09, CHR '' '']\<rparr>)), 0)
     \<in> set ordinals \<and>
   executeJsonTool sampleHost ''play_video'' (noArgs\<lparr>a_query := Some ''  Play the FIRST video ''\<rparr>)
     twoVideos
     = Inr (CardResult (toCard sampleHost
              [(''title'', JStr ''My first video''), (''video_id'', JStr ''b2'')])) \<and>
   executeJsonTool sampleHost ''play_video''
     (noArgs\<lparr>a_query :=
        Some [CHR 0xA0, CHR ''F'', CHR ''i'', CHR ''r'', CHR ''s'', CHR ''t'', CHR 0x09, CHR '' '']\<rparr>)
     twoVideos
     = Inr (CardResult (toCard sampleHost [(''title'', JStr ''Intro''), (''video_id'', JStr ''a1'')]))"
proof -
  let ?a1 = "noArgs\<lparr>a_query := Some ''  Play the FIRST video ''\<rparr>"
  let ?a2 = "noArgs\<lparr>a_query :=
               Some [CHR 0xA0, CHR ''F'', CHR ''i'', CHR ''r'', CHR ''s'', CHR ''t'', CHR 0x09, CHR '' '']\<rparr>"
  have ne: "twoVideos \<noteq> []" by (simp add: twoVideos_def)
  have q1: "normalize (a_query ?a1) = ''play the first video''"
    using padded_query_evals(1) by (simp add: noArgs_def)
  have q2: "normalize (a_query ?a2) = ''first''"
    using padded_query_evals(2) by (simp add: noArgs_def)
  have h1: "normalize (a_query ?a1) \<notin> set (map fst ordinals)"
    unfolding q1 by (rule first_video_evals(4))
  have h2: "(normalize (a_query ?a2), 0) \<in> set ordinals"
    unfolding q2 by (simp add: ordinals_def)
  have r1: "afterOrdinal sampleHost ?a1 twoVideos (numeralFound ''play the first video'' twoVideos)
            = Inr (CardResult (toCard sampleHost
                [(''title'', JStr ''My first video''), (''video_id'', JStr ''b2'')]))"
    unfolding afterOrdinal_def criteriaPick_def q1 first_video_evals by simp
  have r2: "afterOrdinal sampleHost ?a2 twoVideos (elemAt twoVideos 0)
            = Inr (CardResult (toCard sampleHost [(''title'', JStr ''Intro''), (''video_id'', JStr ''a1'')]))"
    by (simp add: afterOrdinal_def elemAt_def twoVideos_def)
  from spelled_ordinal_needs_whole_query [OF ne, of ?a1 sampleHost]
       spelled_ordinal_needs_whole_query [OF ne, of ?a2 sampleHost]
       h1 h2 r1 r2 ne q1
  show ?thesis unfolding q1 q2 by simp
qed

subsection \<open>Title matching without a throw\<close>

lemma findByTitle_text:
  "list_all titleIsText vs \<Longrightarrow> findByTitle p vs = Inr (find (\<lambda>v. p (titleText v)) vs)"
  by (induction vs) (auto simp: titleIsText_def titleText_def split: sum.splits)

lemma titleFound_text:
  assumes "list_all titleIsText vs"
  shows "titleFound query vs =
           Inr (case find (\<lambda>v. everyTerm (split_ws query) (titleText v)) vs of
                  Some v \<Rightarrow> Some v
                | None \<Rightarrow> find (\<lambda>v. someTerm (split_ws query) (titleText v)) vs)"
  by (simp add: titleFound_def findByTitle_text [OF assms] Let_def split: option.split)

lemma play_the_5th_evals:
  "map_of ordinals ''play the 5th'' = None"
  "ordMatch ''play the 5th'' = Some ''5''"
  "parseInt ''5'' = 5"
  "split_ws ''play the 5th'' = [''play'', ''the'', ''5th'']"
  by code_simp+

lemma criteriaCmp_play_the_5th: "criteriaCmp h ''play the 5th'' = None"
  by (simp add: criteriaCmp_def isSpace_def)

lemma numeralFound_beyond:
  "ordMatch query = Some ds \<Longrightarrow> length videos < parseInt ds \<Longrightarrow> numeralFound query videos = None"
  by (simp add: numeralFound_def elemAt_def)

lemma someTerm_5th: "someTerm [''play'', ''the'', ''5th''] t = list_ex (str_includes t) [''play'', ''the'', ''5th'']"
  unfolding someTerm_def by simp

lemma everyTerm_5th: "everyTerm [''play'', ''the'', ''5th''] t \<Longrightarrow> someTerm [''play'', ''the'', ''5th''] t"
  unfolding someTerm_def everyTerm_def by simp

lemma play_the_5th_resolution:
  assumes len: "length videos = 3"
      and q: "normalize (a_query args) = ''play the 5th''"
      and titles: "list_all titleIsText videos"
  shows "(\<not> list_ex (mentions [''play'', ''the'', ''5th'']) videos \<longrightarrow>
            executeJsonTool h ''play_video'' args videos
              = Inr (ErrorResult (''No video found matching \"'' @ str_of (a_query args) @ ''\".''))) \<and>
         (list_ex (mentions [''play'', ''the'', ''5th'']) videos \<longrightarrow>
            (\<exists>v \<in> set videos. mentions [''play'', ''the'', ''5th''] v \<and>
               executeJsonTool h ''play_video'' args videos = Inr (CardResult (toCard h v))))"
proof -
  let ?terms = "[''play'', ''the'', ''5th'']"
  let ?every = "\<lambda>v. everyTerm ?terms (titleText v)"
  let ?some = "\<lambda>v. someTerm ?terms (titleText v)"
  have ne: "videos \<noteq> []" using len by auto
  have m: "mentions ?terms v = ?some v" for v
    unfolding mentions_def someTerm_5th ..
  have "numeralFound ''play the 5th'' videos = None"
    by (rule numeralFound_beyond [OF play_the_5th_evals(2)]) (simp add: play_the_5th_evals(3) len)
  then have "ordinalFound ''play the 5th'' videos = None"
    by (simp only: ordinalFound_not_word [OF play_the_5th_evals(1)])
  then have call: "executeJsonTool h ''play_video'' args videos
      = (case (case find ?every videos of Some v \<Rightarrow> Some v | None \<Rightarrow> find ?some videos) of
           None \<Rightarrow> Inr (notFound args)
         | Some v \<Rightarrow> Inr (CardResult (toCard h v)))"
    unfolding play_video_call [OF ne] q afterOrdinal_def criteriaPick_def criteriaCmp_play_the_5th
      titleFound_text [OF titles] play_the_5th_evals(4)
    by (simp split: option.split)
  have none: "executeJsonTool h ''play_video'' args videos = Inr (notFound args)"
    if "\<not> list_ex (mentions ?terms) videos"
  proof -
    from that have s: "find ?some videos = None"
      by (simp add: find_None_iff list_ex_iff m)
    then have "find ?every videos = None"
      using everyTerm_5th by (auto simp: find_None_iff)
    with s show ?thesis by (simp add: call)
  qed
  have some: "\<exists>v \<in> set videos. mentions ?terms v \<and>
                executeJsonTool h ''play_video'' args videos = Inr (CardResult (toCard h v))"
    if "list_ex (mentions ?terms) videos"
  proof (cases "find ?every videos")
    case None
    from that obtain v where v: "find ?some videos = Some v"
      by (cases "find ?some videos") (auto simp: find_None_iff list_ex_iff m)
    then have "v \<in> set videos" "?some v"
      by (auto simp: find_Some_iff)
    with None v show ?thesis by (auto simp: call m)
  next
    case (Some v)
    then have "v \<in> set videos" "?every v" by (auto simp: find_Some_iff)
    with Some show ?thesis using everyTerm_5th by (auto simp: call m)
  qed
  from none some show ?thesis by (auto simp: notFound_def)
qed

lemma sample_title_evals:
  "list_all titleIsText plainVideos" "list_all titleIsText theVideos"
  "list_ex (mentions [''play'', ''the'', ''5th'']) plainVideos = False"
  "list_ex (mentions [''play'', ''the'', ''5th'']) theVideos"
  "map (mentions [''play'', ''the'', ''5th'']) theVideos = [False, True, False]"
  "titleFound ''play the 5th'' plainVideos = Inr None"
  by code_simp+

lemma out_of_range_numeral:
  assumes ne: "videos \<noteq> []"
      and nw: "normalize (a_query args) \<notin> set (map fst ordinals)"
      and om: "ordMatch (normalize (a_query args)) = Some ds"
      and big: "length videos < parseInt ds"
  shows "executeJsonTool h ''play_video'' args videos = afterOrdinal h args videos None"
    and "criteriaCmp h (normalize (a_query args)) = None \<Longrightarrow>
         titleFound (normalize (a_query args)) videos = Inr None \<Longrightarrow>
         executeJsonTool h ''play_video'' args videos
           = Inr (ErrorResult (''No video found matching \"'' @ str_of (a_query args) @ ''\".''))"
proof -
  from nw have "map_of ordinals (normalize (a_query args)) = None"
    by (simp add: map_of_eq_None_iff)
  then have "ordinalFound (normalize (a_query args)) videos = None"
    using numeralFound_beyond [OF om big] by (simp only: ordinalFound_not_word)
  then show 1: "executeJsonTool h ''play_video'' args videos = afterOrdinal h args videos None"
    by (simp add: play_video_call [OF ne])
  show "executeJsonTool h ''play_video'' args videos
          = Inr (ErrorResult (''No video found matching \"'' @ str_of (a_query args) @ ''\".''))"
    if "criteriaCmp h (normalize (a_query args)) = None"
       "titleFound (normalize (a_query args)) videos = Inr None"
    using that by (simp add: 1 afterOrdinal_def criteriaPick_def notFound_def)
qed

text \<open>
  Claim C3, amended. For every array of 3 videos whose titles are strings or absent,
  the query \<open>play the 5th\<close> does not throw: its ordinal is out of range and yields no
  video, so the resolution goes on with the criteria and the titles. The result is the
  error \<open>No video found matching "..."\<close> with the original query when no title contains
  \<open>play\<close>, \<open>the\<close> or \<open>5th\<close>, and the card of a video whose title contains one of them
  otherwise. In general, on a non-empty array a numeral-suffix ordinal beyond the length
  of the array gives what the criteria and the title match give, and the error naming
  the original query when they find nothing.
\<close>

theorem out_of_range_ordinal_falls_through:
  "(length videos = 3 \<and> normalize (a_query args) = ''play the 5th'' \<and>
    list_all titleIsText videos \<longrightarrow>
      (\<not> list_ex (mentions [''play'', ''the'', ''5th'']) videos \<longrightarrow>
         executeJsonTool h ''play_video'' args videos
           = Inr (ErrorResult (''No video found matching \"'' @ str_of (a_query args) @ ''\".''))) \<and>
      (list_ex (mentions [''play'', ''the'', ''5th'']) videos \<longrightarrow>
         (\<exists>v \<in> set videos. mentions [''play'', ''the'', ''5th''] v \<and>
            executeJsonTool h ''play_video'' args videos = Inr (CardResult (toCard h v))))) \<and>
   (videos \<noteq> [] \<and> normalize (a_query args) \<notin> set (map fst ordinals) \<and>
    ordMatch (normalize (a_query args)) = Some ds \<and> length videos < parseInt ds \<longrightarrow>
      executeJsonTool h ''play_video'' args videos = afterOrdinal h args videos None \<and>
      (criteriaCmp h (normalize (a_query args)) = None \<and>
       titleFound (normalize (a_query args)) videos = Inr None \<longrightarrow>
         executeJsonTool h ''play_video'' args videos
           = Inr (ErrorResult (''No video found matching \"'' @ str_of (a_query args) @ ''\".''))))"
  using play_the_5th_resolution [of videos args h] out_of_range_numeral [of videos args ds h]
  by blast

theorem out_of_range_ordinal_falls_through_witness:
  "length plainVideos = 3 \<and> length theVideos = 3 \<and>
   list_all titleIsText plainVideos \<and> list_all titleIsText theVideos \<and>
   ordMatch ''play the 5th'' = Some ''5'' \<and> length plainVideos < parseInt ''5'' \<and>
   executeJsonTool sampleHost ''play_video'' (noArgs\<lparr>a_query := Some ''play the 5th''\<rparr>) plainVideos
     = Inr (ErrorResult ''No video found matching \"play the 5th\".'') \<and>
   executeJsonTool sampleHost ''play_video'' (noArgs\<lparr>a_query := Some ''play the 5th''\<rparr>) plainVideos
     = afterOrdinal sampleHost (noArgs\<lparr>a_query := Some ''play the 5th''\<rparr>) plainVideos None \<and>
   executeJsonTool sampleHost ''play_video'' (noArgs\<lparr>a_query := Some ''play the 5th''\<rparr>) theVideos
     = Inr (CardResult (toCard sampleHost [(''title'', JStr ''The making of'')]))"
proof -
  let ?args = "noArgs\<lparr>a_query := Some ''play the 5th''\<rparr>"
  have l: "length plainVideos = 3" "length theVideos = 3"
    by (simp_all add: plainVideos_def theVideos_def)
  have ne: "plainVideos \<noteq> []" by (simp add: plainVideos_def)
  have q: "normalize (a_query ?args) = ''play the 5th''"
    by (simp add: noArgs_def normalize_evals)
  have nw: "normalize (a_query ?args) \<notin> set (map fst ordinals)"
    unfolding q using play_the_5th_evals(1) by (simp add: map_of_eq_None_iff)
  have om: "ordMatch (normalize (a_query ?args)) = Some ''5''"
    unfolding q by (rule play_the_5th_evals(2))
  have big: "length plainVideos < parseInt ''5''"
    by (simp add: l play_the_5th_evals(3))
  have cr: "criteriaCmp sampleHost (normalize (a_query ?args)) = None"
    unfolding q by (rule criteriaCmp_play_the_5th)
  have tf: "titleFound (normalize (a_query ?args)) plainVideos = Inr None"
    unfolding q by (rule sample_title_evals(6))
  note thm1 = out_of_range_ordinal_falls_through
                [where videos = plainVideos and args = ?args and h = sampleHost and ds = "''5''"]
  note thm2 = out_of_range_ordinal_falls_through
                [where videos = theVideos and args = ?args and h = sampleHost and ds = "''5''"]
  from thm1 l(1) q sample_title_evals(1,3)
  have a: "executeJsonTool sampleHost ''play_video'' ?args plainVideos
             = Inr (ErrorResult ''No video found matching \"play the 5th\".'')"
    by (simp add: noArgs_def str_of_def)
  from thm1 ne nw om big cr tf
  have b: "executeJsonTool sampleHost ''play_video'' ?args plainVideos
             = afterOrdinal sampleHost ?args plainVideos None"
    by blast
  from thm2 l(2) q sample_title_evals(2,4)
  obtain v where v: "v \<in> set theVideos" "mentions [''play'', ''the'', ''5th''] v"
    and r: "executeJsonTool sampleHost ''play_video'' ?args theVideos
              = Inr (CardResult (toCard sampleHost v))"
    by blast
  from v sample_title_evals(5) have "v = [(''title'', JStr ''The making of'')]"
    by (auto simp: theVideos_def)
  with r a b l big sample_title_evals(1,2) play_the_5th_evals(2) show ?thesis by simp
qed

text \<open>
  Claim C3, as stated, fails: the out-of-range ordinal is not the end of the resolution.
  With the titles \<open>Intro\<close>, \<open>The making of\<close> and \<open>Outro\<close> the term \<open>the\<close> of the query
  matches the second title, and the result is that video's card.
\<close>

theorem play_the_5th_finds_a_title:
  "executeJsonTool sampleHost ''play_video'' (noArgs\<lparr>a_query := Some ''play the 5th''\<rparr>)
     [ [(''title'', JStr ''Intro'')], [(''title'', JStr ''The making of'')], [(''title'', JStr ''Outro'')]]
     = Inr (CardResult \<lparr>k_title = JStr ''The making of'', k_video_url = JUndefined,
              k_thumbnail_url = JStr ''https://i.ytimg.com/vi/undefined/hqdefault.jpg'',
              k_view_count = JUndefined, k_like_count = JUndefined, k_duration = JUndefined\<rparr>)"
proof -
  have t: "titleFound ''play the 5th''
             [ [(''title'', JStr ''Intro'')], [(''title'', JStr ''The making of'')], [(''title'', JStr ''Outro'')]]
           = Inr (Some [(''title'', JStr ''The making of'')])"
    by code_simp
  have o: "ordinalFound ''play the 5th''
             [ [(''title'', JStr ''Intro'')], [(''title'', JStr ''The making of'')], [(''title'', JStr ''Outro'')]]
           = None"
    by code_simp
  have q: "normalize (a_query (noArgs\<lparr>a_query := Some ''play the 5th''\<rparr>)) = ''play the 5th''"
    by (simp add: noArgs_def normalize_evals)
  show ?thesis
    unfolding play_video_call [OF list.distinct(2)] q o afterOrdinal_def criteriaPick_def
      criteriaCmp_play_the_5th t
    by (simp add: toCard_def getProp_def inheritedNames_def)
qed

subsection \<open>Charts\<close>

lemma plot_metric_vs_time_result:
  "fst (plot_metric_vs_time h args s) =
     (if filter (kept (str_of (a_metric args))) (st_videos s) = []
      then ErrorResult (''No data found for metric \"'' @ str_of (a_metric args)
                        @ ''\" with release dates.'')
      else ChartResult
             \<lparr>c_metric = a_metric args,
              c_title = (case a_title args of
                           None \<Rightarrow> str_of (a_metric args) @ '' over time''
                         | Some t \<Rightarrow> if t = [] then str_of (a_metric args) @ '' over time'' else t),
              c_data = map (toPoint h (str_of (a_metric args)))
                         (js_sort (byReleaseDate h)
                            (filter (kept (str_of (a_metric args))) (st_videos s)))\<rparr>)"
  by (simp add: plot_metric_vs_time_def newArray_def Let_def nth_append)

lemma plot_metric_vs_time_call:
  "executeJsonTool h ''plot_metric_vs_time'' args videos
     = Inr (fst (plot_metric_vs_time h args (callStore videos)))"
  by (simp add: executeJsonTool_def executeJsonTool_st_def split_beta)

lemma byReleaseDate_valid:
  assumes "timeOf h a \<noteq> None" "timeOf h b \<noteq> None"
  shows "byReleaseDate h a b
           = Some (real_of_int (the (timeOf h a)) - real_of_int (the (timeOf h b)))"
  using assms by (auto simp: byReleaseDate_def timeOf_def dateDiff_def)

lemma sorted_by_time:
  assumes "list_all (\<lambda>v. timeOf h v \<noteq> None) xs"
  shows "sorted_wrt (\<lambda>a b. notAfter (timeOf h a) (timeOf h b)) (js_sort (byReleaseDate h) xs)"
proof -
  let ?key = "\<lambda>v. real_of_int (the (timeOf h v))"
  have valid: "timeOf h v \<noteq> None" if "v \<in> set xs" for v
    using assms that by (simp add: list_all_iff)
  have "js_sort (byReleaseDate h) xs = sort_key ?key xs"
    by (rule js_sort_sort_key) (simp add: byReleaseDate_valid valid)
  moreover have "sorted_wrt (\<lambda>a b. ?key a \<le> ?key b) (sort_key ?key xs)"
    using sorted_sort_key [of ?key xs] by (simp only: sorted_map)
  moreover have "notAfter (timeOf h a) (timeOf h b)"
    if "a \<in> set (sort_key ?key xs)" "b \<in> set (sort_key ?key xs)" "?key a \<le> ?key b" for a b
    using that valid [of a] valid [of b] by auto
  ultimately show ?thesis
    by (auto intro: sorted_wrt_mono_rel [rotated])
qed

text \<open>
  Claim C6, amended. \<open>plot_metric_vs_time\<close> returns the error exactly when no video has
  a truthy release date and a metric that is neither \<open>undefined\<close> nor \<open>null\<close>. Otherwise it
  returns a chart that is not empty, with one point for each such video and for no
  other, the value of a point being the metric as a number (0 when it does not convert);
  the points are in non-decreasing order of the release date's time value provided that
  the release date of every such video is a valid date.
\<close>

theorem plot_metric_vs_time_points:
  "(filter (kept (str_of (a_metric args))) videos = [] \<longrightarrow>
      executeJsonTool h ''plot_metric_vs_time'' args videos
        = Inr (ErrorResult (''No data found for metric \"'' @ str_of (a_metric args)
                            @ ''\" with release dates.''))) \<and>
   (filter (kept (str_of (a_metric args))) videos \<noteq> [] \<longrightarrow>
      (\<exists>c vs. executeJsonTool h ''plot_metric_vs_time'' args videos = Inr (ChartResult c) \<and>
         c_data c \<noteq> [] \<and>
         c_data c = map (toPoint h (str_of (a_metric args))) vs \<and>
         mset vs = mset (filter (kept (str_of (a_metric args))) videos) \<and>
         list_all (kept (str_of (a_metric args))) vs \<and>
         map p_value (c_data c) = map (\<lambda>v. metricValue h (getProp v (str_of (a_metric args)))) vs \<and>
         (list_all (\<lambda>v. timeOf h v \<noteq> None) (filter (kept (str_of (a_metric args))) videos) \<longrightarrow>
            sorted_wrt (\<lambda>a b. notAfter (timeOf h a) (timeOf h b)) vs)))"
proof -
  let ?kept = "filter (kept (str_of (a_metric args))) videos"
  let ?vs = "js_sort (byReleaseDate h) ?kept"
  have "map p_value (map (toPoint h (str_of (a_metric args))) ?vs)
          = map (\<lambda>v. metricValue h (getProp v (str_of (a_metric args)))) ?vs"
    by (simp add: toPoint_def)
  moreover have "list_all (kept (str_of (a_metric args))) ?vs"
    by (simp add: list_all_iff)
  ultimately show ?thesis
    using sorted_by_time [of h ?kept]
    by (auto simp: plot_metric_vs_time_call plot_metric_vs_time_result callStore_def
          intro!: exI [of _ ?vs])
qed

lemma datedVideos_kept:
  "filter (kept ''view_count'') datedVideos =
     [ [(''title'', JStr ''A''), (''release_date'', JStr ''2024-01-01''), (''view_count'', JNum 10)],
      [(''title'', JStr ''B''), (''release_date'', JStr ''2023-01-01''), (''view_count'', JStr ''12.5'')]]"
  by (simp add: datedVideos_def kept_def getProp_def inheritedNames_def)

theorem plot_metric_vs_time_points_witness:
  "filter (kept ''view_count'') [ [(''title'', JStr ''C''), (''view_count'', JNum 30)]] = [] \<and>
   executeJsonTool sampleHost ''plot_metric_vs_time'' (noArgs\<lparr>a_metric := Some ''view_count''\<rparr>)
     [ [(''title'', JStr ''C''), (''view_count'', JNum 30)]]
     = Inr (ErrorResult ''No data found for metric \"view_count\" with release dates.'') \<and>
   filter (kept ''view_count'') datedVideos \<noteq> [] \<and>
   list_all (\<lambda>v. timeOf sampleHost v \<noteq> None) (filter (kept ''view_count'') datedVideos) \<and>
   (\<exists>c. executeJsonTool sampleHost ''plot_metric_vs_time'' (noArgs\<lparr>a_metric := Some ''view_count''\<rparr>)
          datedVideos = Inr (ChartResult c) \<and> c_data c \<noteq> []) \<and>
   executeJsonTool sampleHost ''plot_metric_vs_time'' (noArgs\<lparr>a_metric := Some ''view_count''\<rparr>)
     datedVideos
     = Inr (ChartResult
         \<lparr>c_metric = Some ''view_count'', c_title = ''view_count over time'',
          c_data = [\<lparr>p_date = ''Jan 2023'', p_fullDate = JStr ''2023-01-01'', p_value = Finite 12.5,
                      p_title = JStr ''B''\<rparr>,
                    \<lparr>p_date = ''Jan 2024'', p_fullDate = JStr ''2024-01-01'', p_value = Finite 10,
                      p_title = JStr ''A''\<rparr>]\<rparr>)"
proof -
  let ?args = "noArgs\<lparr>a_metric := Some ''view_count''\<rparr>"
  have m: "str_of (a_metric ?args) = ''view_count''" by (simp add: noArgs_def str_of_def)
  have e: "filter (kept (str_of (a_metric ?args))) [ [(''title'', JStr ''C''), (''view_count'', JNum 30)]] = []"
    unfolding m by (simp add: kept_def getProp_def inheritedNames_def)
  have k: "filter (kept (str_of (a_metric ?args))) datedVideos \<noteq> []"
    unfolding m by (simp add: datedVideos_kept)
  have v: "list_all (\<lambda>v. timeOf sampleHost v \<noteq> None)
             (filter (kept (str_of (a_metric ?args))) datedVideos)"
    unfolding m by (simp add: datedVideos_kept timeOf_def getProp_def sampleHost_def)
  have r: "executeJsonTool sampleHost ''plot_metric_vs_time'' ?args datedVideos
     = Inr (ChartResult
         \<lparr>c_metric = Some ''view_count'', c_title = ''view_count over time'',
          c_data = [\<lparr>p_date = ''Jan 2023'', p_fullDate = JStr ''2023-01-01'', p_value = Finite 12.5,
                      p_title = JStr ''B''\<rparr>,
                    \<lparr>p_date = ''Jan 2024'', p_fullDate = JStr ''2024-01-01'', p_value = Finite 10,
                      p_title = JStr ''A''\<rparr>]\<rparr>)"
    unfolding plot_metric_vs_time_call plot_metric_vs_time_result m
    by (simp add: callStore_def
          datedVideos_kept js_sort_def sortCompare_def byReleaseDate_def dateDiff_def getProp_def
          toPoint_def metricValue_def sampleHost_def noArgs_def)
  from plot_metric_vs_time_points [of ?args "[ [(''title'', JStr ''C''), (''view_count'', JNum 30)]]" sampleHost]
       plot_metric_vs_time_points [of ?args datedVideos sampleHost] e k v r
  show ?thesis unfolding m by auto
qed

text \<open>
  Claim C6, as stated, fails: the filter tests that the release date is truthy, not that
  it is a date. A video whose release date does not parse is in the chart, as
  \<open>Invalid Date\<close>, and the comparisons with it are \<open>NaN\<close>: the chart is not in the order of
  the timestamps.
\<close>

theorem plot_metric_vs_time_unparsable_date:
  "newDate sampleHost (JStr ''TBD'') = None \<and>
   executeJsonTool sampleHost ''plot_metric_vs_time'' (noArgs\<lparr>a_metric := Some ''view_count''\<rparr>)
     [ [(''title'', JStr ''A''), (''release_date'', JStr ''TBD''), (''view_count'', JNum 10)],
      [(''title'', JStr ''B''), (''release_date'', JStr ''2023-01-01''), (''view_count'', JNum 20)]]
     = Inr (ChartResult
         \<lparr>c_metric = Some ''view_count'', c_title = ''view_count over time'',
          c_data = [\<lparr>p_date = ''Invalid Date'', p_fullDate = JStr ''TBD'', p_value = Finite 10,
                      p_title = JStr ''A''\<rparr>,
                    \<lparr>p_date = ''Jan 2023'', p_fullDate = JStr ''2023-01-01'', p_value = Finite 20,
                      p_title = JStr ''B''\<rparr>]\<rparr>) \<and>
   executeJsonTool sampleHost ''plot_metric_vs_time'' (noArgs\<lparr>a_metric := Some ''view_count''\<rparr>)
     [ [(''title'', JStr ''A''), (''release_date'', JStr ''2024-01-01''), (''view_count'', JNum 10)],
      [(''title'', JStr ''B''), (''release_date'', JStr ''TBD''), (''view_count'', JNum 20)],
      [(''title'', JStr ''C''), (''release_date'', JStr ''2023-01-01''), (''view_count'', JNum 30)]]
     = Inr (ChartResult
         \<lparr>c_metric = Some ''view_count'', c_title = ''view_count over time'',
          c_data = [\<lparr>p_date = ''Jan 2024'', p_fullDate = JStr ''2024-01-01'', p_value = Finite 10,
                      p_title = JStr ''A''\<rparr>,
                    \<lparr>p_date = ''Invalid Date'', p_fullDate = JStr ''TBD'', p_value = Finite 20,
                      p_title = JStr ''B''\<rparr>,
                    \<lparr>p_date = ''Jan 2023'', p_fullDate = JStr ''2023-01-01'', p_value = Finite 30,
                      p_title = JStr ''C''\<rparr>]\<rparr>)"
  by (simp add: plot_metric_vs_time_call plot_metric_vs_time_result callStore_def
        kept_def js_sort_def sortCompare_def byReleaseDate_def dateDiff_def getProp_def
        inheritedNames_def toPoint_def metricValue_def sampleHost_def noArgs_def str_of_def)

text \<open>
  A call that sorts: the sorted copy is a new array of the store, and the array of the
  caller keeps its order.
\<close>

theorem executeJsonTool_leaves_videos_unchanged_witness:
  "st_videos (snd (executeJsonTool_st sampleHost ''play_video''
       (noArgs\<lparr>a_query := Some ''most viewed''\<rparr>) (callStore sampleVideos))) = sampleVideos \<and>
   st_locals (snd (executeJsonTool_st sampleHost ''play_video''
       (noArgs\<lparr>a_query := Some ''most viewed''\<rparr>) (callStore sampleVideos)))
     = [ [ [(''title'', JStr ''B''), (''view_count'', JNum 300)],
         [(''title'', JStr ''C''), (''view_count'', JNum 300)],
         [(''title'', JStr ''A''), (''view_count'', JNum 100)]]]"
proof -
  have q: "normalize (a_query (noArgs\<lparr>a_query := Some ''most viewed''\<rparr>)) = ''most viewed''"
    by (simp add: noArgs_def normalize_evals)
  have "st_locals (snd (play_video sampleHost (noArgs\<lparr>a_query := Some ''most viewed''\<rparr>)
          (callStore sampleVideos)))
     = [ [ [(''title'', JStr ''B''), (''view_count'', JNum 300)],
         [(''title'', JStr ''C''), (''view_count'', JNum 300)],
         [(''title'', JStr ''A''), (''view_count'', JNum 100)]]]"
    unfolding play_video_def q Let_def ordinalFound_most_viewed criteriaFound_def
      criteriaCmp_most_viewed
    by (simp add: callStore_def sampleVideos_def newArray_def js_sort_def sortCompare_def
          descBy_def numDiff_def orZero_def getProp_def elemAt_def split_beta
          split: sum.split option.split)
  then show ?thesis
    using executeJsonTool_leaves_videos_unchanged [of sampleHost "''play_video''"
            "noArgs\<lparr>a_query := Some ''most viewed''\<rparr>" "callStore sampleVideos"]
    by (simp add: executeJsonTool_st_def callStore_def)
qed

end
